theory Spec2Isabelle
  imports Main
begin

section \<open>Data model\<close>

text \<open>
  The scan record of \<^verbatim>\<open>main.cpp\<close> is the library type \<^verbatim>\<open>OctData::OCT\<close>: a
  container of \<^verbatim>\<open>Patient*\<close> keyed by \<^verbatim>\<open>int\<close>; a patient is a container of
  \<^verbatim>\<open>Study*\<close>, a study a container of \<^verbatim>\<open>Series*\<close>, each keyed by \<^verbatim>\<open>int\<close>.
  \<^verbatim>\<open>main.cpp\<close> reads a container through \<^verbatim>\<open>size()\<close>, \<^verbatim>\<open>begin()\<close> and a range-for, and
  checks the pointers it finds against null. A container is therefore the list of its
  (key, pointer) pairs in iteration order, and a pointer is an \<open>option\<close> (\<open>None\<close> is
  the null pointer). Each entry owns the object it points to. A key is a C++ \<^verbatim>\<open>int\<close>;
  no arithmetic is done on keys, so they are taken as \<open>int\<close>. \<^verbatim>\<open>main.cpp\<close> never
  reads what a series holds: the type of a series is the parameter \<open>'s\<close>.
\<close>

text \<open>
  Modelled from the spec: the class \<^verbatim>\<open>OctData::Date\<close> and its methods
  \<^verbatim>\<open>isEmpty\<close>, \<^verbatim>\<open>setDay\<close> and \<^verbatim>\<open>setMonth\<close> are not part of the sources. The spec
  describes a possibly-empty calendar date with separately settable day, month and year,
  where being empty is a state of its own: a setter changes its own field and no other.
\<close>

record Date =
  empty_date :: bool
  day :: int
  month :: int
  year :: int

definition isEmpty :: "Date \<Rightarrow> bool" where
  "isEmpty d = empty_date d"

definition setDay :: "int \<Rightarrow> Date \<Rightarrow> Date" where
  "setDay v d = d\<lparr>day := v\<rparr>"

definition setMonth :: "int \<Rightarrow> Date \<Rightarrow> Date" where
  "setMonth v d = d\<lparr>month := v\<rparr>"

text \<open>
  Modelled from the spec: the classes \<^verbatim>\<open>OctData::Study\<close> and \<^verbatim>\<open>OctData::Patient\<close>
  and their getters and setters are not part of the sources. By the spec a study holds
  its series, and a patient holds the patient id string, the demographic fields (surname,
  forename, title, birthdate) and the studies; a setter changes its own field and no
  other.
\<close>

record 's Study =
  series :: "(int \<times> 's option) list"

record 's Patient =
  patient_id :: string
  surname :: string
  forename :: string
  title :: string
  birthdate :: Date
  studies :: "(int \<times> 's Study option) list"

type_synonym 's OCT = "(int \<times> 's Patient option) list"

definition getId :: "'s Patient \<Rightarrow> string" where
  "getId p = patient_id p"

definition setSurname :: "string \<Rightarrow> 's Patient \<Rightarrow> 's Patient" where
  "setSurname v p = p\<lparr>surname := v\<rparr>"

definition setForename :: "string \<Rightarrow> 's Patient \<Rightarrow> 's Patient" where
  "setForename v p = p\<lparr>forename := v\<rparr>"

definition setTitle :: "string \<Rightarrow> 's Patient \<Rightarrow> 's Patient" where
  "setTitle v p = p\<lparr>title := v\<rparr>"

definition getBirthdate :: "'s Patient \<Rightarrow> Date" where
  "getBirthdate p = birthdate p"

definition setBirthdate :: "Date \<Rightarrow> 's Patient \<Rightarrow> 's Patient" where
  "setBirthdate d p = p\<lparr>birthdate := d\<rparr>"

subsection \<open>Options\<close>

datatype OutputFormat = xoct | octbin | img

record FileReadOptions =
  fillEmptyPixelWhite :: bool
  registerBScanns :: bool
  libPath :: string

record FileWriteOptions =
  octBinFlat :: bool

type_synonym path = string

record Options =
  outputFormat :: OutputFormat
  addOldFilename :: bool
  anonymising :: bool
  outputPath :: path
  optFileRead :: FileReadOptions
  optWrite :: FileWriteOptions

fun getExtention :: "OutputFormat \<Rightarrow> string" where
  "getExtention xoct = ''.xoct''"
| "getExtention octbin = ''.octbin''"
| "getExtention img = ''.img''"

section \<open>Paths and decimal numbers\<close>

text \<open>
  Modelled from the spec: \<^verbatim>\<open>boost::filesystem::path\<close> is not part of the sources. A
  path is its string, with \<^verbatim>\<open>/\<close> as the separator (the generic format, which
  \<^verbatim>\<open>generic_string()\<close> returns). The spec calls the stem the filename without extension or
  directory. The decomposition below is the one of the library version the program was
  written against: the filename is the last element of the path (\<^verbatim>\<open>.\<close> after a trailing
  separator), and the extension starts at the last period of the filename, unless the
  filename is \<^verbatim>\<open>.\<close> or \<^verbatim>\<open>..\<close>. Network root names (\<^verbatim>\<open>//host\<close>) are not told apart.
\<close>

definition is_separator :: "char \<Rightarrow> bool" where
  "is_separator c = (c = CHR ''/'')"

definition path_filename :: "path \<Rightarrow> string" where
  "path_filename p =
     (let name = rev (takeWhile (\<lambda>c. \<not> is_separator c) (rev p)) in
      if p = [] then []
      else if name \<noteq> [] then name
      else if list_all is_separator p then ''/''
      else ''.'')"

definition stem :: "path \<Rightarrow> string" where
  "stem p =
     (let name = path_filename p in
      if name = ''.'' \<or> name = ''..'' then name
      else if CHR ''.'' \<in> set name
        then rev (tl (dropWhile (\<lambda>c. c \<noteq> CHR ''.'') (rev name)))
        else name)"

definition extension :: "path \<Rightarrow> string" where
  "extension p =
     (let name = path_filename p in
      if name = ''.'' \<or> name = ''..'' then []
      else if CHR ''.'' \<in> set name
        then CHR ''.'' # rev (takeWhile (\<lambda>c. c \<noteq> CHR ''.'') (rev name))
        else [])"

definition branch_path :: "path \<Rightarrow> path" where
  "branch_path p =
     (let dir = rev (dropWhile (\<lambda>c. \<not> is_separator c) (rev p));
          cut = rev (dropWhile is_separator (rev dir))
      in if cut = [] then (if dir = [] then [] else ''/'') else cut)"

definition path_append :: "path \<Rightarrow> path \<Rightarrow> path" where
  \<comment> \<open>\<^verbatim>\<open>operator/\<close>\<close>
  "path_append lhs p =
     (if p = [] then lhs
      else if lhs \<noteq> [] \<and> \<not> is_separator (last lhs) \<and> \<not> is_separator (hd p)
        then lhs @ ''/'' @ p
        else lhs @ p)"

text \<open>
  Modelled from the spec: \<^verbatim>\<open>boost::lexical_cast<std::string>\<close> is not part of the
  sources. The spec calls its result on an \<^verbatim>\<open>int\<close> the decimal string form: the decimal
  digits, most significant first, after a minus sign when the number is negative.
\<close>

fun dec_nat :: "nat \<Rightarrow> string" where
  "dec_nat n =
     (if n < 10 then [''0123456789'' ! n]
      else dec_nat (n div 10) @ [''0123456789'' ! (n mod 10)])"

definition lexical_cast :: "int \<Rightarrow> string" where
  "lexical_cast i = (if i < 0 then CHR ''-'' # dec_nat (nat (- i)) else dec_nat (nat i))"

text \<open>Reading a decimal numeral back, to say what "decimal" means.\<close>

definition digit_value :: "char \<Rightarrow> nat" where
  "digit_value c = of_char c - 48"

definition nat_of_dec :: "string \<Rightarrow> nat" where
  "nat_of_dec cs = foldl (\<lambda>a c. 10 * a + digit_value c) 0 cs"

definition int_of_dec :: "string \<Rightarrow> int" where
  "int_of_dec cs =
     (case cs of
        [] \<Rightarrow> 0
      | c # rest \<Rightarrow> if c = CHR ''-'' then - int (nat_of_dec rest) else int (nat_of_dec cs))"

section \<open>The file name of the converted scan\<close>

definition createFilename :: "'s OCT \<Rightarrow> path \<Rightarrow> Options \<Rightarrow> string" where
  "createFilename octdata sourceFilename opt =
     (let oldFileName = stem sourceFilename in
      case octdata of
        [] \<Rightarrow> oldFileName
      | pat # _ \<Rightarrow>
          (case snd pat of
             None \<Rightarrow> oldFileName
           | Some p \<Rightarrow>
               (case studies p of
                  [] \<Rightarrow> oldFileName
                | study # _ \<Rightarrow>
                    (let s = snd study;
                         studyId = fst study;
                         destFileName = (if getId p = [] then ''unknown'' else getId p)
                     in case s of
                          None \<Rightarrow> destFileName
                        | Some s' \<Rightarrow>
                            (case series s' of
                               [] \<Rightarrow> destFileName
                             | sers # _ \<Rightarrow>
                                 (let seriesId = fst sers;
                                      destFileName' = destFileName @ ''_'' @ lexical_cast studyId
                                        @ ''_'' @ lexical_cast seriesId
                                  in if addOldFilename opt
                                     then destFileName' @ CHR ''_'' # stem sourceFilename
                                     else destFileName'))))))"

section \<open>Anonymising a scan record\<close>

text \<open>
  The body of the range-for of \<^verbatim>\<open>anonymisingOct\<close> for a patient that is not null: the
  three setters, then the birthdate, read into \<^verbatim>\<open>d\<close> and written back only when it is
  not empty.
\<close>

definition anonymisingPatient :: "'s Patient \<Rightarrow> 's Patient" where
  "anonymisingPatient pat =
     (let pat1 = setSurname [] pat;
          pat2 = setForename [] pat1;
          pat3 = setTitle [] pat2;
          d = getBirthdate pat3
      in if \<not> isEmpty d
         then (let d1 = setDay 1 d; d2 = setMonth 1 d1 in setBirthdate d2 pat3)
         else pat3)"

primrec anonymisingOct :: "'s OCT \<Rightarrow> 's OCT" where
  "anonymisingOct [] = []"
| "anonymisingOct (pair # rest) =
     (fst pair, (case snd pair of None \<Rightarrow> None | Some pat \<Rightarrow> Some (anonymisingPatient pat)))
       # anonymisingOct rest"

section \<open>Converting one file\<close>

text \<open>
  \<^verbatim>\<open>convertFile\<close> works on the file system and the codec of the library, and prints. The
  file system and the codec are collaborators the program is given: a record of functions
  over a world \<open>'w\<close>. What \<^verbatim>\<open>convertFile\<close> does to its surroundings is the list of its
  calls into the codec and of the lines it prints, in the order they happen, next to the
  world.

  Line 117 binds the result of \<^verbatim>\<open>openFile\<close> to the record; the call has no error
  result. The spec gives the read of the codec a failure, ReadError. A failure of a C++
  call that returns its result by value is an exception, and no \<^verbatim>\<open>try\<close> block of
  \<^verbatim>\<open>main.cpp\<close> encloses a call of \<^verbatim>\<open>convertFile\<close>: the exception leaves
  \<^verbatim>\<open>convertFile\<close>, the walk over the directory and the loop of \<^verbatim>\<open>main\<close> (outcome
  \<open>Thrown\<close>). A codec that reports a failed read by some record instead (an empty one,
  say) is the case \<open>Inr\<close> of its result.
\<close>

datatype read_error = ReadError

datatype outcome = Returned | Thrown read_error

datatype 's event =
    OpenFile path FileReadOptions
      \<comment> \<open>line 117: the call of \<^verbatim>\<open>OctFileRead::openFile\<close>\<close>
  | ErrDestExists path
      \<comment> \<open>line 129: \<^verbatim>\<open>Fehler: Zieldatei existiert:\<close> on \<^verbatim>\<open>cerr\<close>\<close>
  | OutDest path
      \<comment> \<open>line 133: \<^verbatim>\<open>Zieldatei:\<close> on \<^verbatim>\<open>cout\<close>\<close>
  | WriteFile path "'s OCT" FileWriteOptions
      \<comment> \<open>line 139: the call of \<^verbatim>\<open>OctFileRead::writeFile\<close>\<close>
  | ErrWrite path
      \<comment> \<open>line 141: \<^verbatim>\<open>Error: write file ... not successful\<close> on \<^verbatim>\<open>cerr\<close>\<close>
  | IsLoadable path
      \<comment> \<open>line 157: the call of \<^verbatim>\<open>OctFileRead::isLoadable\<close>\<close>

record dir_entry =
  entry_path :: path
  entry_is_directory :: bool

record ('s, 'w) Collaborators =
  fs_exists :: "path \<Rightarrow> 'w \<Rightarrow> bool"
  fs_is_directory :: "path \<Rightarrow> 'w \<Rightarrow> bool"
  directory_entries :: "path \<Rightarrow> 'w \<Rightarrow> dir_entry list"
  openFile :: "path \<Rightarrow> FileReadOptions \<Rightarrow> 'w \<Rightarrow> read_error + 's OCT"
  writeFile :: "path \<Rightarrow> 's OCT \<Rightarrow> FileWriteOptions \<Rightarrow> 'w \<Rightarrow> bool \<times> 'w"
  isLoadable :: "path \<Rightarrow> 'w \<Rightarrow> bool"

record ('s, 'w) state =
  world :: 'w
  trace :: "'s event list"

definition emit :: "'s event \<Rightarrow> ('s, 'w) state \<Rightarrow> ('s, 'w) state" where
  "emit ev s = s\<lparr>trace := trace s @ [ev]\<rparr>"

text \<open>Lines 119 to 126: the destination of a loaded record.\<close>

definition destination :: "'s OCT \<Rightarrow> path \<Rightarrow> Options \<Rightarrow> path" where
  "destination octdata filename opt =
     (let destFileName = createFilename octdata filename opt;
          destFileName' =
            (if outputPath opt = []
             then path_append (branch_path filename) destFileName
             else path_append (outputPath opt) destFileName)
      in destFileName' @ getExtention (outputFormat opt))"

definition convertFile ::
  "('s, 'w) Collaborators \<Rightarrow> path \<Rightarrow> Options \<Rightarrow> ('s, 'w) state \<Rightarrow> outcome \<times> ('s, 'w) state" where
  "convertFile env filename opt s =
     (let s1 = emit (OpenFile filename (optFileRead opt)) s in
      case openFile env filename (optFileRead opt) (world s1) of
        Inl e \<Rightarrow> (Thrown e, s1)
      | Inr octdata \<Rightarrow>
          (let destFileName = destination octdata filename opt in
           if fs_exists env destFileName (world s1)
           then (Returned, emit (ErrDestExists destFileName) s1)
           else
             (let s2 = emit (OutDest destFileName) s1 in
              if destFileName \<noteq> []
              then
                (let octdata' = (if anonymising opt then anonymisingOct octdata else octdata);
                     written = writeFile env destFileName octdata' (optWrite opt) (world s2);
                     s3 = emit (WriteFile destFileName octdata' (optWrite opt))
                            (s2\<lparr>world := snd written\<rparr>)
                 in if \<not> fst written
                    then (Returned, emit (ErrWrite destFileName) s3)
                    else (Returned, s3))
              else (Returned, s2))))"

section \<open>Walking a directory\<close>

text \<open>
  The body of the loop of \<^verbatim>\<open>convertFilesFromDir\<close> for one entry of the recursive
  directory iterator (lines 152 to 160). \<^verbatim>\<open>generic_string()\<close> is the path itself in the
  generic format. The comparison of the extension with the target's is the comparison of
  two one-element paths, that is of their strings.
\<close>

definition convertEntry ::
  "('s, 'w) Collaborators \<Rightarrow> Options \<Rightarrow> dir_entry \<Rightarrow> ('s, 'w) state \<Rightarrow> outcome \<times> ('s, 'w) state" where
  "convertEntry env opt entry s =
     (if \<not> entry_is_directory entry
      then
        (if extension (entry_path entry) \<noteq> getExtention (outputFormat opt)
         then
           (let filename = entry_path entry;
                s1 = emit (IsLoadable filename) s
            in if isLoadable env filename (world s1)
               then convertFile env filename opt s1
               else (Returned, s1))
         else (Returned, s))
      else (Returned, s))"

text \<open>
  The loop itself. The recursive directory iterator is the list of the entries it
  yields, in its order (\<open>directory_entries\<close>, with the answer of \<^verbatim>\<open>is_directory\<close> in
  each entry); the list is taken when the walk starts. An exception ends the loop.
\<close>

primrec convertEntries ::
  "('s, 'w) Collaborators \<Rightarrow> Options \<Rightarrow> dir_entry list \<Rightarrow> ('s, 'w) state \<Rightarrow> outcome \<times> ('s, 'w) state" where
  "convertEntries env opt [] s = (Returned, s)"
| "convertEntries env opt (entry # rest) s =
     (case convertEntry env opt entry s of
        (Returned, s') \<Rightarrow> convertEntries env opt rest s'
      | (Thrown e, s') \<Rightarrow> (Thrown e, s'))"

definition convertFilesFromDir ::
  "('s, 'w) Collaborators \<Rightarrow> path \<Rightarrow> Options \<Rightarrow> ('s, 'w) state \<Rightarrow> outcome \<times> ('s, 'w) state" where
  "convertFilesFromDir env search_here opt s =
     convertEntries env opt (directory_entries env search_here (world s)) s"

text \<open>The loop over the paths of the command line (lines 233 to 240 of \<^verbatim>\<open>main\<close>).\<close>

primrec convertPaths ::
  "('s, 'w) Collaborators \<Rightarrow> Options \<Rightarrow> path list \<Rightarrow> ('s, 'w) state \<Rightarrow> outcome \<times> ('s, 'w) state" where
  "convertPaths env opt [] s = (Returned, s)"
| "convertPaths env opt (octPath # rest) s =
     (case (if fs_is_directory env octPath (world s)
            then convertFilesFromDir env octPath opt s
            else convertFile env octPath opt s) of
        (Returned, s') \<Rightarrow> convertPaths env opt rest s'
      | (Thrown e, s') \<Rightarrow> (Thrown e, s'))"

text \<open>The events a run added to the trace it started with.\<close>

definition new_events :: "('s, 'w) state \<Rightarrow> ('s, 'w) state \<Rightarrow> 's event list" where
  "new_events s s' = drop (length (trace s)) (trace s')"

section \<open>A small scan and a small directory\<close>

text \<open>
  The record of the scenarios of the spec: patient \<^verbatim>\<open>P42\<close>, surname Doe, born on
  1980-05-17, with study 3 and series 7. The content of a series is a string here.
\<close>

definition example_study :: "string Study" where
  "example_study = \<lparr>series = [(7, Some ''volume'')]\<rparr>"

definition example_patient :: "string Patient" where
  "example_patient =
     \<lparr>patient_id = ''P42'', surname = ''Doe'', forename = ''Jane'', title = ''Dr'',
      birthdate = \<lparr>empty_date = False, day = 17, month = 5, year = 1980\<rparr>,
      studies = [(3, Some example_study)]\<rparr>"

definition example_oct :: "string OCT" where
  "example_oct = [(1, Some example_patient)]"

text \<open>The same patient before any study was recorded.\<close>

definition example_oct_no_study :: "string OCT" where
  "example_oct_no_study = [(1, Some (example_patient\<lparr>studies := []\<rparr>))]"

definition example_opt :: Options where
  "example_opt =
     \<lparr>outputFormat = xoct, addOldFilename = False, anonymising = False, outputPath = [],
      optFileRead = \<lparr>fillEmptyPixelWhite = False, registerBScanns = True, libPath = ''bin''\<rparr>,
      optWrite = \<lparr>octBinFlat = True\<rparr>\<rparr>"

text \<open>
  A world is the list of the files that exist. Every read returns a record: the empty
  one for \<^verbatim>\<open>d/empty.raw\<close> and \<^verbatim>\<open>d/locked.raw\<close>, the record above for every other path.
  The write to \<^verbatim>\<open>d/locked.xoct\<close> fails; any other write creates the file.
  The codec can load every file but \<^verbatim>\<open>d/notes.txt\<close>.
\<close>

definition quiet_env :: "(string, path list) Collaborators" where
  "quiet_env =
     \<lparr>fs_exists = (\<lambda>p w. p \<in> set w),
      fs_is_directory = (\<lambda>p w. p = ''d''),
      directory_entries = (\<lambda>p w.
        if p = ''d''
        then [\<lparr>entry_path = ''d/a.raw'', entry_is_directory = False\<rparr>,
              \<lparr>entry_path = ''d/b.raw'', entry_is_directory = False\<rparr>,
              \<lparr>entry_path = ''d/locked.raw'', entry_is_directory = False\<rparr>,
              \<lparr>entry_path = ''d/empty.raw'', entry_is_directory = False\<rparr>]
        else []),
      openFile = (\<lambda>p ro w.
        Inr (if p = ''d/empty.raw'' \<or> p = ''d/locked.raw'' then [] else example_oct)),
      writeFile = (\<lambda>p octdata wo w. if p = ''d/locked.xoct'' then (False, w) else (True, p # w)),
      isLoadable = (\<lambda>p w. p \<noteq> ''d/notes.txt'')\<rparr>"

text \<open>The same surroundings with a codec whose read of \<^verbatim>\<open>d/a.raw\<close> fails.\<close>

definition failing_env :: "(string, path list) Collaborators" where
  "failing_env =
     quiet_env\<lparr>openFile :=
       (\<lambda>p ro w. if p = ''d/a.raw'' then Inl ReadError else Inr example_oct)\<rparr>"

text \<open>
  The quiet surroundings with another directory \<^verbatim>\<open>d\<close>: a file in the target format, a
  file to convert, a file the codec cannot load and a subdirectory; and with a directory
  \<^verbatim>\<open>out\<close> whose only file carries the target extension.
\<close>

definition mixed_env :: "(string, path list) Collaborators" where
  "mixed_env =
     quiet_env\<lparr>directory_entries := (\<lambda>p w.
       if p = ''d''
       then [\<lparr>entry_path = ''d/a.xoct'', entry_is_directory = False\<rparr>,
             \<lparr>entry_path = ''d/b.raw'', entry_is_directory = False\<rparr>,
             \<lparr>entry_path = ''d/notes.txt'', entry_is_directory = False\<rparr>,
             \<lparr>entry_path = ''d/sub'', entry_is_directory = True\<rparr>]
       else if p = ''out''
       then [\<lparr>entry_path = ''out/P42_3_7.xoct'', entry_is_directory = False\<rparr>,
             \<lparr>entry_path = ''out/sub'', entry_is_directory = True\<rparr>]
       else [])\<rparr>"

definition start :: "(string, path list) state" where
  "start = \<lparr>world = [], trace = []\<rparr>"

section \<open>Auxiliary facts\<close>

declare dec_nat.simps [simp del]

lemmas path_defs =
  stem_def extension_def path_filename_def branch_path_def path_append_def is_separator_def

lemmas patient_defs =
  getId_def setSurname_def setForename_def setTitle_def getBirthdate_def setBirthdate_def
  isEmpty_def setDay_def setMonth_def

lemmas example_defs =
  example_oct_def example_patient_def example_study_def example_oct_no_study_def
  example_opt_def quiet_env_def failing_env_def mixed_env_def start_def

subsection \<open>Decimal numerals\<close>

lemma digit_value_digit: "d < 10 \<Longrightarrow> digit_value (''0123456789'' ! d) = d"
proof -
  assume "d < 10"
  then have "d \<in> {0, 1, 2, 3, 4, 5, 6, 7, 8, 9}"
    by auto
  then show ?thesis
    by (auto simp: digit_value_def)
qed

lemma nat_of_dec_snoc: "nat_of_dec (cs @ [c]) = 10 * nat_of_dec cs + digit_value c"
  by (simp add: nat_of_dec_def)

lemma nat_of_dec_dec_nat: "nat_of_dec (dec_nat n) = n"
proof (induction n rule: dec_nat.induct)
  case (1 n)
  show ?case
  proof (cases "n < 10")
    case True
    then show ?thesis
      by (subst dec_nat.simps) (simp add: nat_of_dec_def digit_value_digit)
  next
    case False
    then show ?thesis
      using 1 by (subst dec_nat.simps) (simp add: nat_of_dec_snoc digit_value_digit)
  qed
qed

lemma dec_nat_not_Nil: "dec_nat n \<noteq> []"
  by (subst dec_nat.simps) simp

lemma hd_dec_nat_not_minus: "hd (dec_nat n) \<noteq> CHR ''-''"
proof (induction n rule: dec_nat.induct)
  case (1 n)
  show ?case
  proof (cases "n < 10")
    case True
    then have "n \<in> {0, 1, 2, 3, 4, 5, 6, 7, 8, 9}"
      by auto
    then show ?thesis
      by (subst dec_nat.simps) auto
  next
    case False
    then show ?thesis
      using 1 dec_nat_not_Nil[of "n div 10"] by (subst dec_nat.simps) simp
  qed
qed

lemma int_of_dec_lexical_cast: "int_of_dec (lexical_cast i) = i"
proof (cases "i < 0")
  case True
  then show ?thesis
    by (simp add: int_of_dec_def lexical_cast_def nat_of_dec_dec_nat)
next
  case False
  obtain c cs where cs: "dec_nat (nat i) = c # cs"
    using dec_nat_not_Nil[of "nat i"] by (cases "dec_nat (nat i)") auto
  have "c \<noteq> CHR ''-''"
    using hd_dec_nat_not_minus[of "nat i"] cs by simp
  moreover have "nat_of_dec (c # cs) = nat i"
    using nat_of_dec_dec_nat[of "nat i"] cs by simp
  ultimately show ?thesis
    using False cs by (simp add: int_of_dec_def lexical_cast_def)
qed

subsection \<open>The anonymised patient\<close>

lemma anonymisingOct_map:
  "anonymisingOct octData =
     map (\<lambda>pair. (fst pair, map_option anonymisingPatient (snd pair))) octData"
  by (induction octData) (auto split: option.splits)

lemma anonymisingPatient_fields:
  "surname (anonymisingPatient pat) = []"
  "forename (anonymisingPatient pat) = []"
  "title (anonymisingPatient pat) = []"
  "patient_id (anonymisingPatient pat) = patient_id pat"
  "studies (anonymisingPatient pat) = studies pat"
  by (simp_all add: anonymisingPatient_def Let_def patient_defs)

lemma anonymisingPatient_birthdate:
  "birthdate (anonymisingPatient pat) =
     (if empty_date (birthdate pat) then birthdate pat
      else (birthdate pat)\<lparr>day := 1, month := 1\<rparr>)"
  by (simp add: anonymisingPatient_def Let_def patient_defs)

lemma anonymisingPatient_idem:
  "anonymisingPatient (anonymisingPatient pat) = anonymisingPatient pat"
  by (simp add: anonymisingPatient_def Let_def patient_defs)

lemma anonymisingPatient_only:
  "pat\<lparr>surname := surname (anonymisingPatient pat),
       forename := forename (anonymisingPatient pat),
       title := title (anonymisingPatient pat),
       birthdate := (birthdate pat)\<lparr>day := day (birthdate (anonymisingPatient pat)),
                       month := month (birthdate (anonymisingPatient pat))\<rparr>\<rparr>
     = anonymisingPatient pat"
  by (simp add: anonymisingPatient_def Let_def patient_defs)

subsection \<open>One file, and the walk\<close>

lemma convertFile_returns:
  "openFile env filename (optFileRead opt) (world s) = Inr octdata
    \<Longrightarrow> fst (convertFile env filename opt s) = Returned"
  by (simp add: convertFile_def Let_def emit_def)

lemma convertFile_trace:
  "\<exists>evs. trace (snd (convertFile env filename opt s))
     = trace s @ OpenFile filename (optFileRead opt) # evs"
  by (simp add: convertFile_def Let_def emit_def split: sum.splits)

lemma convertEntries_append:
  "convertEntries env opt (es1 @ es2) s =
     (case convertEntries env opt es1 s of
        (Returned, s') \<Rightarrow> convertEntries env opt es2 s'
      | (Thrown e, s') \<Rightarrow> (Thrown e, s'))"
proof (induction es1 arbitrary: s)
  case Nil
  show ?case by simp
next
  case (Cons entry es1)
  show ?case
  proof (cases "convertEntry env opt entry s")
    case (Pair out s')
    then show ?thesis
      using Cons.IH[of s'] by (cases out) simp_all
  qed
qed

lemma convertFile_events:
  "\<exists>evs. trace (snd (convertFile env filename opt s))
       = trace s @ OpenFile filename (optFileRead opt) # evs
     \<and> (\<forall>p ro. OpenFile p ro \<notin> set evs)
     \<and> (\<forall>d octdata wo. WriteFile d octdata wo \<in> set evs \<longrightarrow> \<not> fs_exists env d (world s))"
  by (simp add: convertFile_def Let_def emit_def split: sum.splits)

lemma convertEntry_prefix:
  "\<exists>evs. trace (snd (convertEntry env opt entry s)) = trace s @ evs"
proof -
  obtain evs where "trace (snd (convertFile env (entry_path entry) opt
        (emit (IsLoadable (entry_path entry)) s)))
     = trace (emit (IsLoadable (entry_path entry)) s)
         @ OpenFile (entry_path entry) (optFileRead opt) # evs"
    using convertFile_trace by blast
  then show ?thesis
    by (simp add: convertEntry_def Let_def emit_def)
qed

lemma convertEntries_prefix:
  "\<exists>evs. trace (snd (convertEntries env opt entries s)) = trace s @ evs"
proof (induction entries arbitrary: s)
  case Nil
  show ?case by simp
next
  case (Cons entry entries)
  obtain out s' where step: "convertEntry env opt entry s = (out, s')"
    by (cases "convertEntry env opt entry s")
  obtain evs1 where evs1: "trace s' = trace s @ evs1"
    using convertEntry_prefix[of env opt entry s] step by auto
  show ?case
  proof (cases out)
    case Returned
    obtain evs2 where "trace (snd (convertEntries env opt entries s')) = trace s' @ evs2"
      using Cons.IH[of s'] by blast
    then have "trace (snd (convertEntries env opt (entry # entries) s))
        = trace s @ (evs1 @ evs2)"
      using step Returned evs1 by simp
    then show ?thesis by blast
  next
    case (Thrown e)
    then have "trace (snd (convertEntries env opt (entry # entries) s)) = trace s @ evs1"
      using step evs1 by simp
    then show ?thesis by blast
  qed
qed

lemma convertEntry_new_events_shape:
  "\<exists>evs. (\<forall>p ro. OpenFile p ro \<notin> set evs)
     \<and> new_events s (snd (convertEntry env opt entry s)) =
        (if \<not> entry_is_directory entry
            \<and> extension (entry_path entry) \<noteq> getExtention (outputFormat opt)
         then (if isLoadable env (entry_path entry) (world s)
               then IsLoadable (entry_path entry)
                      # OpenFile (entry_path entry) (optFileRead opt) # evs
               else [IsLoadable (entry_path entry)])
         else [])"
proof -
  obtain evs where evs: "trace (snd (convertFile env (entry_path entry) opt
        (emit (IsLoadable (entry_path entry)) s)))
     = trace (emit (IsLoadable (entry_path entry)) s)
         @ OpenFile (entry_path entry) (optFileRead opt) # evs"
    and no: "\<forall>p ro. OpenFile p ro \<notin> set evs"
    using convertFile_events by blast
  have "new_events s (snd (convertEntry env opt entry s)) =
        (if \<not> entry_is_directory entry
            \<and> extension (entry_path entry) \<noteq> getExtention (outputFormat opt)
         then (if isLoadable env (entry_path entry) (world s)
               then IsLoadable (entry_path entry)
                      # OpenFile (entry_path entry) (optFileRead opt) # evs
               else [IsLoadable (entry_path entry)])
         else [])"
    using evs by (simp add: convertEntry_def Let_def new_events_def emit_def)
  then show ?thesis
    using no by blast
qed

lemma convertEntry_opens:
  "(OpenFile p (optFileRead opt) \<in> set (new_events s (snd (convertEntry env opt entry s))))
     = (entry_path entry = p \<and> \<not> entry_is_directory entry
        \<and> extension p \<noteq> getExtention (outputFormat opt)
        \<and> isLoadable env p (world s))"
proof -
  obtain evs where no: "\<forall>p ro. OpenFile p ro \<notin> set evs"
    and shape: "new_events s (snd (convertEntry env opt entry s)) =
        (if \<not> entry_is_directory entry
            \<and> extension (entry_path entry) \<noteq> getExtention (outputFormat opt)
         then (if isLoadable env (entry_path entry) (world s)
               then IsLoadable (entry_path entry)
                      # OpenFile (entry_path entry) (optFileRead opt) # evs
               else [IsLoadable (entry_path entry)])
         else [])"
    using convertEntry_new_events_shape by blast
  show ?thesis
  proof (cases "entry_path entry = p")
    case True
    then show ?thesis
      using no by (simp add: shape)
  next
    case False
    then show ?thesis
      using no by (simp add: shape)
  qed
qed

lemma convertEntries_opens:
  fixes s :: "('s, 'w) state"
  shows "(OpenFile p (optFileRead opt) \<in> set (new_events s (snd (convertEntries env opt entries s))))
     = (\<exists>j < length entries.
          fst (convertEntries env opt (take j entries) s) = Returned
          \<and> entry_path (entries ! j) = p
          \<and> \<not> entry_is_directory (entries ! j)
          \<and> extension p \<noteq> getExtention (outputFormat opt)
          \<and> isLoadable env p (world (snd (convertEntries env opt (take j entries) s))))"
proof (induction entries arbitrary: s)
  case Nil
  show ?case by (simp add: new_events_def)
next
  case (Cons entry entries)
  define reached where "reached = (\<lambda>es t j.
      fst (convertEntries env opt (take j es) t) = Returned
      \<and> entry_path (es ! j) = p
      \<and> \<not> entry_is_directory (es ! j)
      \<and> extension p \<noteq> getExtention (outputFormat opt)
      \<and> isLoadable env p (world (snd (convertEntries env opt (take j es) t))))"
  define opened where "opened = (\<lambda>(t :: ('s, 'w) state) (t' :: ('s, 'w) state). OpenFile p (optFileRead opt) \<in> set (new_events t t'))"
  obtain out s' where step: "convertEntry env opt entry s = (out, s')"
    by (cases "convertEntry env opt entry s")
  obtain evs1 where evs1: "trace s' = trace s @ evs1"
    using convertEntry_prefix[of env opt entry s] step by auto
  have first: "opened s s' = reached (entry # entries) s 0"
    using convertEntry_opens[of p opt s env entry] step
    by (simp add: opened_def reached_def)
  have split: "(\<exists>j < length (entry # entries). reached (entry # entries) s j)
      = (reached (entry # entries) s 0
         \<or> (\<exists>j < length entries. reached (entry # entries) s (Suc j)))"
    by (auto simp: less_Suc_eq_0_disj)
  have goal: "opened s (snd (convertEntries env opt (entry # entries) s))
      = (\<exists>j < length (entry # entries). reached (entry # entries) s j)"
  proof (cases out)
    case Returned
    let ?s'' = "snd (convertEntries env opt entries s')"
    obtain evs2 where evs2: "trace ?s'' = trace s' @ evs2"
      using convertEntries_prefix[of env opt entries s'] by blast
    have later: "reached (entry # entries) s (Suc j) = reached entries s' j" for j
      using step Returned by (simp add: reached_def)
    have ih: "opened s' ?s'' = (\<exists>j < length entries. reached entries s' j)"
      using Cons.IH[of s'] by (simp add: opened_def reached_def)
    have "opened s (snd (convertEntries env opt (entry # entries) s))
        = (opened s s' \<or> opened s' ?s'')"
      using step Returned evs1 evs2 by (simp add: opened_def new_events_def)
    then show ?thesis
      unfolding split first[symmetric] later ih[symmetric] by simp
  next
    case (Thrown e)
    have later: "\<not> reached (entry # entries) s (Suc j)" for j
      using step Thrown by (simp add: reached_def)
    have "opened s (snd (convertEntries env opt (entry # entries) s)) = opened s s'"
      using step Thrown by simp
    then show ?thesis
      unfolding split first[symmetric] using later by simp
  qed
  then show ?case
    by (simp add: opened_def reached_def)
qed

subsection \<open>Returning and throwing\<close>

lemma destination_not_Nil: "destination octdata filename opt \<noteq> []"
  by (cases "outputFormat opt") (simp_all add: destination_def Let_def)

lemma convertFile_write_fails:
  assumes "openFile env filename (optFileRead opt) (world s) = Inr octdata"
    and "\<not> fs_exists env (destination octdata filename opt) (world s)"
    and "\<not> fst (writeFile env (destination octdata filename opt)
            (if anonymising opt then anonymisingOct octdata else octdata)
            (optWrite opt) (world s))"
  shows "convertFile env filename opt s =
      (Returned,
       s\<lparr>world := snd (writeFile env (destination octdata filename opt)
                   (if anonymising opt then anonymisingOct octdata else octdata)
                   (optWrite opt) (world s)),
          trace := trace s @
            [OpenFile filename (optFileRead opt),
             OutDest (destination octdata filename opt),
             WriteFile (destination octdata filename opt)
               (if anonymising opt then anonymisingOct octdata else octdata) (optWrite opt),
             ErrWrite (destination octdata filename opt)]\<rparr>)"
  using assms by (simp add: convertFile_def Let_def emit_def destination_not_Nil)

lemma convertPaths_file_continues:
  assumes "openFile env filename (optFileRead opt) (world s) = Inr octdata"
    and "\<not> fs_is_directory env filename (world s)"
  shows "convertPaths env opt (filename # rest) s
      = convertPaths env opt rest (snd (convertFile env filename opt s))"
proof -
  have "fst (convertFile env filename opt s) = Returned"
    using assms(1) by (rule convertFile_returns)
  then obtain s' where "convertFile env filename opt s = (Returned, s')"
    by (cases "convertFile env filename opt s") auto
  then show ?thesis
    using assms(2) by simp
qed

lemma convertEntries_file_continues:
  assumes "openFile env (entry_path entry) (optFileRead opt) (world s) = Inr octdata"
  shows "fst (convertEntry env opt entry s) = Returned
    \<and> convertEntries env opt (entry # entries) s
        = convertEntries env opt entries (snd (convertEntry env opt entry s))"
proof -
  let ?s1 = "emit (IsLoadable (entry_path entry)) s"
  have "openFile env (entry_path entry) (optFileRead opt) (world ?s1) = Inr octdata"
    using assms by (simp add: emit_def)
  then have "fst (convertFile env (entry_path entry) opt ?s1) = Returned"
    by (rule convertFile_returns)
  then have ret: "fst (convertEntry env opt entry s) = Returned"
    by (simp add: convertEntry_def Let_def)
  then obtain s' where "convertEntry env opt entry s = (Returned, s')"
    by (cases "convertEntry env opt entry s") auto
  then show ?thesis
    by simp
qed

lemma convertFile_thrown:
  assumes "fst (convertFile env filename opt s) = Thrown e"
  shows "snd (convertFile env filename opt s)
        = s\<lparr>trace := trace s @ [OpenFile filename (optFileRead opt)]\<rparr>
    \<and> openFile env filename (optFileRead opt) (world s) = Inl e"
proof (cases "openFile env filename (optFileRead opt) (world s)")
  case (Inl e')
  then show ?thesis
    using assms by (simp add: convertFile_def Let_def emit_def)
next
  case (Inr octdata)
  then have "fst (convertFile env filename opt s) = Returned"
    by (rule convertFile_returns)
  then show ?thesis
    using assms by simp
qed

lemma convertEntry_thrown:
  assumes "fst (convertEntry env opt entry s) = Thrown e"
  shows "\<exists>evs f. trace (snd (convertEntry env opt entry s))
          = evs @ [OpenFile f (optFileRead opt)]
      \<and> openFile env f (optFileRead opt) (world (snd (convertEntry env opt entry s))) = Inl e"
proof -
  let ?s1 = "emit (IsLoadable (entry_path entry)) s"
  have conv: "convertEntry env opt entry s = convertFile env (entry_path entry) opt ?s1"
    using assms by (simp add: convertEntry_def Let_def split: if_splits)
  then have "fst (convertFile env (entry_path entry) opt ?s1) = Thrown e"
    using assms by simp
  then have "snd (convertFile env (entry_path entry) opt ?s1)
        = ?s1\<lparr>trace := trace ?s1 @ [OpenFile (entry_path entry) (optFileRead opt)]\<rparr>
    \<and> openFile env (entry_path entry) (optFileRead opt) (world ?s1) = Inl e"
    by (rule convertFile_thrown)
  then show ?thesis
    using conv by (intro exI[of _ "trace ?s1"] exI[of _ "entry_path entry"]) simp
qed

lemma convertEntries_thrown:
  "fst (convertEntries env opt entries s) = Thrown e \<Longrightarrow>
    \<exists>evs f. trace (snd (convertEntries env opt entries s))
          = evs @ [OpenFile f (optFileRead opt)]
      \<and> openFile env f (optFileRead opt) (world (snd (convertEntries env opt entries s)))
          = Inl e"
proof (induction entries arbitrary: s)
  case Nil
  then show ?case by simp
next
  case (Cons entry entries)
  obtain out s' where step: "convertEntry env opt entry s = (out, s')"
    by (cases "convertEntry env opt entry s")
  show ?case
  proof (cases out)
    case Returned
    then show ?thesis
      using step Cons.prems Cons.IH[of s'] by simp
  next
    case (Thrown e')
    then have "fst (convertEntry env opt entry s) = Thrown e"
      using step Cons.prems by simp
    then show ?thesis
      using convertEntry_thrown[of env opt entry s e] step Thrown by simp
  qed
qed

lemma convertPaths_thrown:
  "fst (convertPaths env opt octPaths s) = Thrown e \<Longrightarrow>
    \<exists>evs f. trace (snd (convertPaths env opt octPaths s))
          = evs @ [OpenFile f (optFileRead opt)]
      \<and> openFile env f (optFileRead opt) (world (snd (convertPaths env opt octPaths s)))
          = Inl e"
proof (induction octPaths arbitrary: s)
  case Nil
  then show ?case by simp
next
  case (Cons p ps)
  let ?r = "if fs_is_directory env p (world s)
            then convertFilesFromDir env p opt s else convertFile env p opt s"
  obtain out s' where step: "?r = (out, s')"
    by (cases ?r)
  show ?case
  proof (cases out)
    case Returned
    then show ?thesis
      using step Cons.prems Cons.IH[of s'] by simp
  next
    case (Thrown e')
    then have thrown: "fst ?r = Thrown e" and final: "convertPaths env opt (p # ps) s = ?r"
      using step Cons.prems by simp_all
    have "\<exists>evs f. trace (snd ?r) = evs @ [OpenFile f (optFileRead opt)]
      \<and> openFile env f (optFileRead opt) (world (snd ?r)) = Inl e"
    proof (cases "fs_is_directory env p (world s)")
      case True
      then show ?thesis
        using thrown convertEntries_thrown[of env opt "directory_entries env p (world s)" s e]
        by (simp add: convertFilesFromDir_def)
    next
      case False
      then have "fst (convertFile env p opt s) = Thrown e"
        using thrown by simp
      then have "snd (convertFile env p opt s)
            = s\<lparr>trace := trace s @ [OpenFile p (optFileRead opt)]\<rparr>
          \<and> openFile env p (optFileRead opt) (world s) = Inl e"
        by (rule convertFile_thrown)
      then show ?thesis
        using False by (intro exI[of _ "trace s"] exI[of _ p]) simp
    qed
    then show ?thesis
      unfolding final .
  qed
qed

lemma convertPaths_append:
  "convertPaths env opt (ps1 @ ps2) s =
     (case convertPaths env opt ps1 s of
        (Returned, s') \<Rightarrow> convertPaths env opt ps2 s'
      | (Thrown e, s') \<Rightarrow> (Thrown e, s'))"
proof (induction ps1 arbitrary: s)
  case Nil
  show ?case by simp
next
  case (Cons p ps1)
  let ?r = "if fs_is_directory env p (world s)
            then convertFilesFromDir env p opt s else convertFile env p opt s"
  show ?case
  proof (cases ?r)
    case (Pair out s')
    then show ?thesis
      using Cons.IH[of s'] by (cases out) simp_all
  qed
qed

lemma convertEntries_take_returned:
  assumes "fst (convertEntries env opt entries s) = Returned"
  shows "fst (convertEntries env opt (take j entries) s) = Returned"
proof -
  obtain out s' where pre: "convertEntries env opt (take j entries) s = (out, s')"
    by (cases "convertEntries env opt (take j entries) s")
  have "convertEntries env opt (take j entries @ drop j entries) s =
     (case convertEntries env opt (take j entries) s of
        (Returned, s') \<Rightarrow> convertEntries env opt (drop j entries) s'
      | (Thrown e, s') \<Rightarrow> (Thrown e, s'))"
    by (rule convertEntries_append)
  then have "out = Returned"
    using assms pre by (cases out) simp_all
  then show ?thesis
    using pre by simp
qed

lemma convertEntries_skip_all:
  "\<forall>e \<in> set entries. \<not> entry_is_directory e
      \<longrightarrow> extension (entry_path e) = getExtention (outputFormat opt)
    \<Longrightarrow> convertEntries env opt entries s = (Returned, s)"
  by (induction entries) (auto simp: convertEntry_def)

text \<open>Facts about the example scan and the example directory.\<close>

lemma destination_example:
  "destination example_oct ''d/a.raw'' example_opt = ''d/P42_3_7.xoct''"
  "destination example_oct ''d/b.raw'' example_opt = ''d/P42_3_7.xoct''"
  "destination [] ''d/locked.raw'' example_opt = ''d/locked.xoct''"
  "destination [] ''d/empty.raw'' example_opt = ''d/empty.xoct''"
  by (simp_all add: destination_def createFilename_def Let_def path_defs example_defs
      patient_defs lexical_cast_def dec_nat.simps)

lemma example_opt_fields:
  "outputFormat example_opt = xoct"
  "anonymising example_opt = False"
  "outputPath example_opt = []"
  by (simp_all add: example_opt_def)

lemma extension_example:
  "extension ''d/a.raw'' = ''.raw''"
  "extension ''d/b.raw'' = ''.raw''"
  "extension ''d/locked.raw'' = ''.raw''"
  "extension ''d/empty.raw'' = ''.raw''"
  "extension ''d/notes.txt'' = ''.txt''"
  "extension ''d/a.xoct'' = ''.xoct''"
  "extension ''d/a.XOCT'' = ''.XOCT''"
  "extension ''d/sub'' = []"
  "extension ''out/P42_3_7.xoct'' = ''.xoct''"
  "extension ''out/sub'' = []"
  by (simp_all add: path_defs)

section \<open>The claims about the file name\<close>

text \<open>
  Claim C1. For every scan record whose first patient (in iteration order) has at least
  one study whose first study has at least one series, \<^verbatim>\<open>createFilename\<close> returns the
  patient id, or \<^verbatim>\<open>unknown\<close> exactly when the id is empty, followed by an underscore and
  the id of the first study, an underscore and the id of the first series, and by an
  underscore and the stem of the original path exactly when \<^verbatim>\<open>addOldFilename\<close> is set.
  The two ids are written in decimal: read back as decimal numerals they are the ids.
\<close>

theorem createFilename_full_name:
  assumes "octdata = (k, Some p) # pats"
    and "studies p = (studyId, Some s) # studs"
    and "series s = (seriesId, sr) # sers"
  shows "createFilename octdata sourceFilename opt =
      (if getId p = [] then ''unknown'' else getId p)
        @ ''_'' @ lexical_cast studyId @ ''_'' @ lexical_cast seriesId
        @ (if addOldFilename opt then ''_'' @ stem sourceFilename else [])
    \<and> int_of_dec (lexical_cast studyId) = studyId
    \<and> int_of_dec (lexical_cast seriesId) = seriesId"
  using assms by (simp add: createFilename_def int_of_dec_lexical_cast)

text \<open>
  The scenario of the spec: patient \<^verbatim>\<open>P42\<close>, study 3, series 7, the original file
  \<^verbatim>\<open>scan001.raw\<close> and \<^verbatim>\<open>addOldFilename\<close> set.
\<close>

theorem createFilename_full_name_witness:
  "example_oct = (1, Some example_patient) # []
   \<and> studies example_patient = (3, Some example_study) # []
   \<and> series example_study = (7, Some ''volume'') # []
   \<and> createFilename example_oct ''x/scan001.raw'' (example_opt\<lparr>addOldFilename := True\<rparr>)
       = ''P42_3_7_scan001''"
proof -
  have h1: "example_oct = (1, Some example_patient) # []"
    by (simp add: example_oct_def)
  have h2: "studies example_patient = (3, Some example_study) # []"
    by (simp add: example_patient_def)
  have h3: "series example_study = (7, Some ''volume'') # []"
    by (simp add: example_study_def)
  have "createFilename example_oct ''x/scan001.raw'' (example_opt\<lparr>addOldFilename := True\<rparr>)
       = ''P42_3_7_scan001''"
    using createFilename_full_name[OF h1 h2 h3,
        of "''x/scan001.raw''" "example_opt\<lparr>addOldFilename := True\<rparr>"]
    by (simp add: getId_def example_patient_def example_opt_def lexical_cast_def
        dec_nat.simps path_defs)
  then show ?thesis
    using h1 h2 h3 by simp
qed

text \<open>
  Claim C4, as the spec has it: for every scan record whose first patient exists but has
  no studies, or whose first study is null or has no series, \<^verbatim>\<open>createFilename\<close> returns
  the patient id (\<^verbatim>\<open>unknown\<close> when the id is empty) with no suffix. The code returns the
  stem of the original path for a patient with no studies (line 68). What holds: when the
  first patient has a first study that is null or has no series, the result is the patient
  id, or \<^verbatim>\<open>unknown\<close> when the id is empty, with no suffix; when the first patient has no
  studies, the result is the stem of the original path.
\<close>

theorem createFilename_fallbacks:
  "(octdata = (k, Some p) # pats \<and> studies p = (studyId, s) # studs
      \<and> (s = None \<or> (\<exists>s'. s = Some s' \<and> series s' = []))
     \<longrightarrow> createFilename octdata sourceFilename opt
          = (if getId p = [] then ''unknown'' else getId p))
   \<and> (octdata = (k, Some p) # pats \<and> studies p = []
     \<longrightarrow> createFilename octdata sourceFilename opt = stem sourceFilename)"
  by (auto simp: createFilename_def)

text \<open>
  Patient \<^verbatim>\<open>P42\<close> with no study yet: the name of the converted \<^verbatim>\<open>x/scan001.raw\<close> is
  \<^verbatim>\<open>scan001\<close>, not \<^verbatim>\<open>P42\<close>.
\<close>

theorem createFilename_no_study_counterexample:
  "example_oct_no_study = [(1, Some (example_patient\<lparr>studies := []\<rparr>))]
   \<and> studies (example_patient\<lparr>studies := []\<rparr>) = []
   \<and> getId (example_patient\<lparr>studies := []\<rparr>) = ''P42''
   \<and> createFilename example_oct_no_study ''x/scan001.raw'' example_opt = ''scan001''
   \<and> createFilename example_oct_no_study ''x/scan001.raw'' example_opt \<noteq> ''P42''"
  by (simp add: createFilename_def getId_def example_oct_no_study_def example_patient_def
      path_defs)

text \<open>
  Both fallbacks on patient \<^verbatim>\<open>P42\<close>: a null first study gives \<^verbatim>\<open>P42\<close>, a first study
  with no series gives \<^verbatim>\<open>P42\<close>, and no study at all gives the stem.
\<close>

theorem createFilename_fallbacks_witness:
  "createFilename [(1, Some (example_patient\<lparr>studies := [(3, None)]\<rparr>))]
       ''x/scan001.raw'' example_opt = ''P42''
   \<and> createFilename [(1, Some (example_patient\<lparr>studies := [(3, Some \<lparr>series = []\<rparr>)]\<rparr>))]
       ''x/scan001.raw'' example_opt = ''P42''
   \<and> createFilename example_oct_no_study ''x/scan001.raw'' example_opt = ''scan001''"
proof -
  let ?none = "example_patient\<lparr>studies := [(3, None)]\<rparr>"
  let ?bare = "example_patient\<lparr>studies := [(3, Some \<lparr>series = []\<rparr>)]\<rparr>"
  let ?nost = "example_patient\<lparr>studies := []\<rparr>"
  have a: "createFilename [(1, Some ?none)] ''x/scan001.raw'' example_opt = ''P42''"
    using createFilename_fallbacks[of "[(1, Some ?none)]" 1 ?none "[]" 3 None "[]"
        "''x/scan001.raw''" example_opt]
    by (simp add: getId_def example_patient_def)
  have b: "createFilename [(1, Some ?bare)] ''x/scan001.raw'' example_opt = ''P42''"
    using createFilename_fallbacks[of "[(1, Some ?bare)]" 1 ?bare "[]" 3
        "Some \<lparr>series = []\<rparr>" "[]" "''x/scan001.raw''" example_opt]
    by (simp add: getId_def example_patient_def)
  have c: "createFilename example_oct_no_study ''x/scan001.raw'' example_opt = ''scan001''"
    using createFilename_fallbacks[of example_oct_no_study 1 ?nost "[]" 3 None "[]"
        "''x/scan001.raw''" example_opt]
    by (simp add: example_oct_no_study_def example_patient_def path_defs)
  show ?thesis
    using a b c by simp
qed

text \<open>
  Claim C5, as the spec has it: \<^verbatim>\<open>createFilename\<close> is pure and always returns a
  non-empty string; for a record with zero patients it returns the stem of the original
  path, and that result is non-empty. \<^verbatim>\<open>createFilename\<close> takes its three arguments by
  const reference and is a function of them here. For a record with zero patients it
  returns the stem, but the stem of a path can be empty. What holds: for a record with
  zero patients the result is the stem of the original path; and for every record the
  result is empty exactly when the stem of the original path is empty and the record
  falls back to the stem, that is when it has zero patients, a null first patient or a
  first patient with no studies. In every other case the result is non-empty.
\<close>

theorem createFilename_empty_iff:
  fixes octdata :: "'s OCT"
  shows
  "createFilename ([] :: 's OCT) sourceFilename opt = stem sourceFilename
   \<and> (createFilename octdata sourceFilename opt = []) =
       (stem sourceFilename = []
        \<and> (octdata = []
           \<or> (\<exists>k pats. octdata = (k, None) # pats)
           \<or> (\<exists>k p pats. octdata = (k, Some p) # pats \<and> studies p = [])))"
  by (auto simp: createFilename_def Let_def split: list.splits option.splits)

text \<open>The empty path, with a record of zero patients: the result is the empty string.\<close>

theorem createFilename_empty_counterexample:
  "createFilename ([] :: string OCT) [] example_opt = []"
  by (simp add: createFilename_def path_defs)

text \<open>
  On the empty path patient \<^verbatim>\<open>P42\<close> with study 3 and series 7 still gets a name, while
  a null first patient and a patient with no studies get the empty one; on
  \<^verbatim>\<open>x/scan001.raw\<close> every record gets a name.
\<close>

theorem createFilename_empty_iff_witness:
  "stem [] = [] \<and> stem ''x/scan001.raw'' = ''scan001''
   \<and> createFilename ([] :: string OCT) ''x/scan001.raw'' example_opt = ''scan001''
   \<and> createFilename example_oct [] example_opt = ''P42_3_7''
   \<and> createFilename [(1, None :: string Patient option)] [] example_opt = []
   \<and> createFilename example_oct_no_study [] example_opt = []
   \<and> createFilename [(1, None :: string Patient option)] ''x/scan001.raw'' example_opt \<noteq> []
   \<and> createFilename example_oct_no_study ''x/scan001.raw'' example_opt \<noteq> []"
proof -
  have st: "stem [] = []" "stem ''x/scan001.raw'' = ''scan001''"
    by (simp_all add: path_defs)
  have a: "createFilename ([] :: string OCT) ''x/scan001.raw'' example_opt = ''scan001''"
    using createFilename_empty_iff[of "''x/scan001.raw''" example_opt "[] :: string OCT"]
    by (simp add: st)
  have b: "createFilename example_oct [] example_opt = ''P42_3_7''"
    by (simp add: createFilename_def Let_def example_defs patient_defs lexical_cast_def
        dec_nat.simps)
  have c: "createFilename [(1, None :: string Patient option)] [] example_opt = []"
    using createFilename_empty_iff[of "[]" example_opt "[(1, None :: string Patient option)]"]
    by (simp add: st)
  have d: "createFilename example_oct_no_study [] example_opt = []"
    using createFilename_empty_iff[of "[]" example_opt example_oct_no_study]
    by (simp add: st example_oct_no_study_def)
  have e: "createFilename [(1, None :: string Patient option)] ''x/scan001.raw'' example_opt
      \<noteq> []"
    using createFilename_empty_iff[of "''x/scan001.raw''" example_opt
        "[(1, None :: string Patient option)]"]
    by (simp add: st)
  have f: "createFilename example_oct_no_study ''x/scan001.raw'' example_opt \<noteq> []"
    using createFilename_empty_iff[of "''x/scan001.raw''" example_opt example_oct_no_study]
    by (simp add: st)
  show ?thesis
    using st a b c d e f by simp
qed

section \<open>The claims about anonymising\<close>

text \<open>
  Claim C2. For every scan record, \<^verbatim>\<open>anonymisingOct\<close> sets the surname, the forename
  and the title of every patient to the empty string; a birthdate that is not empty gets
  day 1 and month 1 and keeps its year; an empty birthdate stays as it is. The patient
  stays under its key, at its place in the record.
\<close>

theorem anonymisingOct_sets_fields:
  assumes "i < length octData" and "octData ! i = (k, Some pat)"
  shows "\<exists>pat'. anonymisingOct octData ! i = (k, Some pat')
      \<and> surname pat' = [] \<and> forename pat' = [] \<and> title pat' = []
      \<and> (if isEmpty (getBirthdate pat)
         then getBirthdate pat' = getBirthdate pat
         else \<not> isEmpty (getBirthdate pat')
           \<and> day (getBirthdate pat') = 1 \<and> month (getBirthdate pat') = 1
           \<and> year (getBirthdate pat') = year (getBirthdate pat))"
proof -
  have "anonymisingOct octData ! i = (k, Some (anonymisingPatient pat))"
    using assms by (simp add: anonymisingOct_map)
  then show ?thesis
    by (simp add: anonymisingPatient_fields anonymisingPatient_birthdate isEmpty_def
        getBirthdate_def)
qed

text \<open>
  The scenario of the spec: surname Doe, born on 1980-05-17, becomes the empty surname
  and 1980-01-01. A patient with an empty birthdate keeps it.
\<close>

theorem anonymisingOct_sets_fields_witness:
  "0 < length example_oct
   \<and> example_oct ! 0 = (1, Some example_patient)
   \<and> \<not> isEmpty (getBirthdate example_patient)
   \<and> (\<exists>pat'. anonymisingOct example_oct ! 0 = (1, Some pat')
        \<and> surname pat' = [] \<and> forename pat' = [] \<and> title pat' = []
        \<and> \<not> isEmpty (getBirthdate pat')
        \<and> day (getBirthdate pat') = 1 \<and> month (getBirthdate pat') = 1
        \<and> year (getBirthdate pat') = 1980)
   \<and> isEmpty (getBirthdate (example_patient\<lparr>birthdate := \<lparr>empty_date = True, day = 0, month = 0, year = 0\<rparr>\<rparr>))
   \<and> (\<exists>pat'. anonymisingOct [(1, Some (example_patient\<lparr>birthdate := \<lparr>empty_date = True, day = 0, month = 0, year = 0\<rparr>\<rparr>))] ! 0 = (1, Some pat')
        \<and> surname pat' = [] \<and> forename pat' = [] \<and> title pat' = []
        \<and> getBirthdate pat' = \<lparr>empty_date = True, day = 0, month = 0, year = 0\<rparr>)"
proof -
  let ?unborn = "example_patient\<lparr>birthdate := \<lparr>empty_date = True, day = 0, month = 0, year = 0\<rparr>\<rparr>"
  have h1: "0 < length example_oct"
    by (simp add: example_oct_def)
  have h2: "example_oct ! 0 = (1, Some example_patient)"
    by (simp add: example_oct_def)
  have h3: "\<not> isEmpty (getBirthdate example_patient)"
    by (simp add: isEmpty_def getBirthdate_def example_patient_def)
  have g1: "0 < length [(1::int, Some ?unborn)]"
    by simp
  have g2: "[(1::int, Some ?unborn)] ! 0 = (1, Some ?unborn)"
    by simp
  have g3: "isEmpty (getBirthdate ?unborn)"
    by (simp add: isEmpty_def getBirthdate_def)
  have a: "\<exists>pat'. anonymisingOct example_oct ! 0 = (1, Some pat')
        \<and> surname pat' = [] \<and> forename pat' = [] \<and> title pat' = []
        \<and> \<not> isEmpty (getBirthdate pat')
        \<and> day (getBirthdate pat') = 1 \<and> month (getBirthdate pat') = 1
        \<and> year (getBirthdate pat') = 1980"
    using anonymisingOct_sets_fields[OF h1 h2] h3
    by (simp add: getBirthdate_def example_patient_def)
  have b: "\<exists>pat'. anonymisingOct [(1, Some ?unborn)] ! 0 = (1, Some pat')
        \<and> surname pat' = [] \<and> forename pat' = [] \<and> title pat' = []
        \<and> getBirthdate pat' = \<lparr>empty_date = True, day = 0, month = 0, year = 0\<rparr>"
    using anonymisingOct_sets_fields[OF g1 g2] g3
    by (simp add: getBirthdate_def)
  show ?thesis
    using h1 h2 h3 g3 a b by blast
qed

text \<open>
  Claim C8. Anonymising is idempotent: for every scan record, \<^verbatim>\<open>anonymisingOct\<close>
  applied twice leaves the same record as \<^verbatim>\<open>anonymisingOct\<close> applied once.
\<close>

theorem anonymisingOct_idempotent:
  "anonymisingOct (anonymisingOct octData) = anonymisingOct octData"
  by (induction octData) (auto simp: anonymisingPatient_idem split: option.splits)

text \<open>
  Claim C9. For every scan record, \<^verbatim>\<open>anonymisingOct\<close> keeps the keys of the record and
  their order, keeps a null patient null, and keeps of every patient the id and the
  studies, with their ids, their series and the ids of these; it keeps the year of the
  birthdate. The anonymised patient is the patient with new values for the surname, the
  forename, the title and the day and the month of the birthdate, and nothing else.
\<close>

theorem anonymisingOct_frame:
  "map fst (anonymisingOct octData) = map fst octData
   \<and> (\<forall>i < length octData.
        case snd (octData ! i) of
          None \<Rightarrow> snd (anonymisingOct octData ! i) = None
        | Some pat \<Rightarrow>
            (\<exists>pat'. snd (anonymisingOct octData ! i) = Some pat'
               \<and> patient_id pat' = patient_id pat
               \<and> studies pat' = studies pat
               \<and> year (birthdate pat') = year (birthdate pat)
               \<and> pat' = pat\<lparr>surname := surname pat', forename := forename pat',
                     title := title pat',
                     birthdate := (birthdate pat)\<lparr>day := day (birthdate pat'),
                                     month := month (birthdate pat')\<rparr>\<rparr>))"
proof (intro conjI allI impI)
  show "map fst (anonymisingOct octData) = map fst octData"
    by (simp add: anonymisingOct_map comp_def)
next
  fix i
  assume "i < length octData"
  then show "case snd (octData ! i) of
          None \<Rightarrow> snd (anonymisingOct octData ! i) = None
        | Some pat \<Rightarrow>
            (\<exists>pat'. snd (anonymisingOct octData ! i) = Some pat'
               \<and> patient_id pat' = patient_id pat
               \<and> studies pat' = studies pat
               \<and> year (birthdate pat') = year (birthdate pat)
               \<and> pat' = pat\<lparr>surname := surname pat', forename := forename pat',
                     title := title pat',
                     birthdate := (birthdate pat)\<lparr>day := day (birthdate pat'),
                                     month := month (birthdate pat')\<rparr>\<rparr>)"
    by (simp add: anonymisingOct_map anonymisingPatient_fields anonymisingPatient_birthdate
        anonymisingPatient_only split: option.splits)
qed

text \<open>A record of two entries, patient \<^verbatim>\<open>P42\<close> under key 1 and a null patient under key 2.\<close>

theorem anonymisingOct_frame_witness:
  "map fst (anonymisingOct [(1, Some example_patient), (2, None)]) = [1, 2]
   \<and> snd (anonymisingOct [(1, Some example_patient), (2, None)] ! 1) = None
   \<and> (\<exists>pat'. snd (anonymisingOct [(1, Some example_patient), (2, None)] ! 0) = Some pat'
        \<and> patient_id pat' = ''P42''
        \<and> studies pat' = [(3, Some example_study)]
        \<and> year (birthdate pat') = 1980)"
proof -
  let ?oct = "[(1::int, Some example_patient), (2, None)]"
  have frame: "\<forall>i < length ?oct.
        case snd (?oct ! i) of
          None \<Rightarrow> snd (anonymisingOct ?oct ! i) = None
        | Some pat \<Rightarrow>
            (\<exists>pat'. snd (anonymisingOct ?oct ! i) = Some pat'
               \<and> patient_id pat' = patient_id pat
               \<and> studies pat' = studies pat
               \<and> year (birthdate pat') = year (birthdate pat)
               \<and> pat' = pat\<lparr>surname := surname pat', forename := forename pat',
                     title := title pat',
                     birthdate := (birthdate pat)\<lparr>day := day (birthdate pat'),
                                     month := month (birthdate pat')\<rparr>\<rparr>)"
    and keys: "map fst (anonymisingOct ?oct) = map fst ?oct"
    using anonymisingOct_frame[of ?oct] by blast+
  have "snd (anonymisingOct ?oct ! 1) = None"
    using frame[rule_format, of 1] by simp
  moreover have "\<exists>pat'. snd (anonymisingOct ?oct ! 0) = Some pat'
        \<and> patient_id pat' = ''P42''
        \<and> studies pat' = [(3, Some example_study)]
        \<and> year (birthdate pat') = 1980"
    using frame[rule_format, of 0] by (auto simp: example_patient_def)
  ultimately show ?thesis
    using keys by simp
qed

section \<open>The claims about converting files\<close>

text \<open>
  Claim C3. For every input file and options, if the destination computed for the loaded
  record exists, \<^verbatim>\<open>convertFile\<close> reports the conflict and returns: the only things it
  has done are the read and the report, so it has called no write, of the record or of
  an anonymised one, under this name or another, and the world is the one it found. The
  loop of \<^verbatim>\<open>main\<close> goes on with the paths that remain, from that world. And whatever the
  file, \<^verbatim>\<open>convertFile\<close> calls \<^verbatim>\<open>writeFile\<close> only on a path that did not exist.
\<close>

theorem convertFile_destination_exists:
  "(openFile env filename (optFileRead opt) (world s) = Inr octdata
      \<and> fs_exists env (destination octdata filename opt) (world s) \<longrightarrow>
      convertFile env filename opt s =
        (Returned, s\<lparr>trace := trace s @ [OpenFile filename (optFileRead opt),
                                          ErrDestExists (destination octdata filename opt)]\<rparr>)
      \<and> (\<not> fs_is_directory env filename (world s) \<longrightarrow>
          convertPaths env opt (filename # rest) s =
            convertPaths env opt rest
              (s\<lparr>trace := trace s @ [OpenFile filename (optFileRead opt),
                                     ErrDestExists (destination octdata filename opt)]\<rparr>)))
   \<and> (\<forall>d written wo.
        WriteFile d written wo \<in> set (new_events s (snd (convertFile env filename opt s)))
        \<longrightarrow> \<not> fs_exists env d (world s))"
proof (intro conjI impI allI)
  assume "openFile env filename (optFileRead opt) (world s) = Inr octdata
      \<and> fs_exists env (destination octdata filename opt) (world s)"
  then show conflict: "convertFile env filename opt s =
        (Returned, s\<lparr>trace := trace s @ [OpenFile filename (optFileRead opt),
                                          ErrDestExists (destination octdata filename opt)]\<rparr>)"
    by (simp add: convertFile_def Let_def emit_def)
  assume "\<not> fs_is_directory env filename (world s)"
  then show "convertPaths env opt (filename # rest) s =
            convertPaths env opt rest
              (s\<lparr>trace := trace s @ [OpenFile filename (optFileRead opt),
                                     ErrDestExists (destination octdata filename opt)]\<rparr>)"
    using conflict by simp
next
  fix d written wo
  assume w: "WriteFile d written wo
      \<in> set (new_events s (snd (convertFile env filename opt s)))"
  obtain evs where evs: "trace (snd (convertFile env filename opt s))
       = trace s @ OpenFile filename (optFileRead opt) # evs"
    and safe: "\<forall>d octdata wo. WriteFile d octdata wo \<in> set evs
        \<longrightarrow> \<not> fs_exists env d (world s)"
    using convertFile_events by blast
  have "WriteFile d written wo \<in> set evs"
    using w evs by (simp add: new_events_def)
  then show "\<not> fs_exists env d (world s)"
    using safe by blast
qed

text \<open>
  \<^verbatim>\<open>d/a.raw\<close> holds patient \<^verbatim>\<open>P42\<close>, and \<^verbatim>\<open>d/P42_3_7.xoct\<close> exists already.
\<close>

theorem convertFile_destination_exists_witness:
  "openFile quiet_env ''d/a.raw'' (optFileRead example_opt) [''d/P42_3_7.xoct''] = Inr example_oct
   \<and> fs_exists quiet_env (destination example_oct ''d/a.raw'' example_opt) [''d/P42_3_7.xoct'']
   \<and> \<not> fs_is_directory quiet_env ''d/a.raw'' [''d/P42_3_7.xoct'']
   \<and> convertFile quiet_env ''d/a.raw'' example_opt \<lparr>world = [''d/P42_3_7.xoct''], trace = []\<rparr>
       = (Returned, \<lparr>world = [''d/P42_3_7.xoct''],
            trace = [OpenFile ''d/a.raw'' (optFileRead example_opt),
                     ErrDestExists ''d/P42_3_7.xoct'']\<rparr>)
   \<and> convertPaths quiet_env example_opt [''d/a.raw''] \<lparr>world = [''d/P42_3_7.xoct''], trace = []\<rparr>
       = (Returned, \<lparr>world = [''d/P42_3_7.xoct''],
            trace = [OpenFile ''d/a.raw'' (optFileRead example_opt),
                     ErrDestExists ''d/P42_3_7.xoct'']\<rparr>)
   \<and> WriteFile ''d/P42_3_7.xoct'' example_oct (optWrite example_opt)
       \<in> set (new_events start (snd (convertFile quiet_env ''d/a.raw'' example_opt start)))
   \<and> \<not> fs_exists quiet_env ''d/P42_3_7.xoct'' (world start)"
proof -
  let ?s = "\<lparr>world = [''d/P42_3_7.xoct''], trace = []\<rparr> :: (string, path list) state"
  have h1: "openFile quiet_env ''d/a.raw'' (optFileRead example_opt) (world ?s) = Inr example_oct"
    by (simp add: quiet_env_def)
  have h2: "fs_exists quiet_env (destination example_oct ''d/a.raw'' example_opt) (world ?s)"
    by (simp add: quiet_env_def destination_example)
  have h3: "\<not> fs_is_directory quiet_env ''d/a.raw'' (world ?s)"
    by (simp add: quiet_env_def)
  have conflict: "convertFile quiet_env ''d/a.raw'' example_opt ?s
       = (Returned, \<lparr>world = [''d/P42_3_7.xoct''],
            trace = [OpenFile ''d/a.raw'' (optFileRead example_opt),
                     ErrDestExists ''d/P42_3_7.xoct'']\<rparr>)"
    and loop: "convertPaths quiet_env example_opt [''d/a.raw''] ?s
       = (Returned, \<lparr>world = [''d/P42_3_7.xoct''],
            trace = [OpenFile ''d/a.raw'' (optFileRead example_opt),
                     ErrDestExists ''d/P42_3_7.xoct'']\<rparr>)"
    using convertFile_destination_exists[of quiet_env "''d/a.raw''" example_opt ?s example_oct
        "[]"] h1 h2 h3
    by (simp_all add: destination_example)
  have w: "WriteFile ''d/P42_3_7.xoct'' example_oct (optWrite example_opt)
       \<in> set (new_events start (snd (convertFile quiet_env ''d/a.raw'' example_opt start)))"
    by (simp add: convertFile_def Let_def emit_def quiet_env_def start_def new_events_def
        destination_example example_opt_fields)
  have fresh: "\<not> fs_exists quiet_env ''d/P42_3_7.xoct'' (world start)"
    using convertFile_destination_exists[of quiet_env "''d/a.raw''" example_opt start] w
    by blast
  show ?thesis
    using h1 h2 h3 conflict loop w fresh by simp
qed

text \<open>
  Claim C6, as the spec has it: every error of one file (read failure, destination
  conflict, write failure) is isolated to that file and never aborts the batch; when the
  load of a candidate fails, \<^verbatim>\<open>convertFile\<close> skips the file, reports an error, and the
  walk goes on. \<^verbatim>\<open>convertFile\<close> has no handler for a failed load. What holds: whenever
  the load of a file returns a record, \<^verbatim>\<open>convertFile\<close> returns normally, whether it meets
  a conflict or a failed write (which it reports), and the walk and the loop of
  \<^verbatim>\<open>main\<close> go on with the entries and the paths that remain, from the state
  \<^verbatim>\<open>convertFile\<close> left. A walk or a loop that returned normally for a first part of its
  list goes on with the rest. The walk and the loop end early only with a load that
  throws as the last thing they did: a load that throws leaves \<^verbatim>\<open>convertFile\<close> at once,
  with nothing reported, and the walk and the loop of \<^verbatim>\<open>main\<close> with it.
\<close>

theorem conflict_and_write_failure_isolated:
  fixes s :: "('s, 'w) state"
  shows
  "(openFile env filename (optFileRead opt) (world s) = Inr octdata \<longrightarrow>
      fst (convertFile env filename opt s) = Returned
      \<and> (\<not> fs_is_directory env filename (world s) \<longrightarrow>
           convertPaths env opt (filename # rest) s
             = convertPaths env opt rest (snd (convertFile env filename opt s)))
      \<and> (entry_path entry = filename \<longrightarrow>
           fst (convertEntry env opt entry s) = Returned
           \<and> convertEntries env opt (entry # entries) s
               = convertEntries env opt entries (snd (convertEntry env opt entry s)))
      \<and> (\<not> fs_exists env (destination octdata filename opt) (world s)
          \<and> \<not> fst (writeFile env (destination octdata filename opt)
                  (if anonymising opt then anonymisingOct octdata else octdata)
                  (optWrite opt) (world s)) \<longrightarrow>
           convertFile env filename opt s =
             (Returned,
              s\<lparr>world := snd (writeFile env (destination octdata filename opt)
                          (if anonymising opt then anonymisingOct octdata else octdata)
                          (optWrite opt) (world s)),
                 trace := trace s @
                   [OpenFile filename (optFileRead opt),
                    OutDest (destination octdata filename opt),
                    WriteFile (destination octdata filename opt)
                      (if anonymising opt then anonymisingOct octdata else octdata)
                      (optWrite opt),
                    ErrWrite (destination octdata filename opt)]\<rparr>)))
   \<and> (fst (convertEntries env opt es1 s) = Returned \<longrightarrow>
        convertEntries env opt (es1 @ es2) s
          = convertEntries env opt es2 (snd (convertEntries env opt es1 s)))
   \<and> (fst (convertPaths env opt ps1 s) = Returned \<longrightarrow>
        convertPaths env opt (ps1 @ ps2) s
          = convertPaths env opt ps2 (snd (convertPaths env opt ps1 s)))
   \<and> (fs_is_directory env search_here (world s)
        \<and> fst (convertFilesFromDir env search_here opt s) = Returned \<longrightarrow>
        convertPaths env opt (search_here # rest) s
          = convertPaths env opt rest (snd (convertFilesFromDir env search_here opt s)))
   \<and> (fst (convertFilesFromDir env search_here opt s) = Thrown e \<longrightarrow>
        (\<exists>evs f. trace (snd (convertFilesFromDir env search_here opt s))
              = evs @ [OpenFile f (optFileRead opt)]
          \<and> openFile env f (optFileRead opt)
              (world (snd (convertFilesFromDir env search_here opt s))) = Inl e))
   \<and> (fst (convertPaths env opt octPaths s) = Thrown e \<longrightarrow>
        (\<exists>evs f. trace (snd (convertPaths env opt octPaths s))
              = evs @ [OpenFile f (optFileRead opt)]
          \<and> openFile env f (optFileRead opt)
              (world (snd (convertPaths env opt octPaths s))) = Inl e))
   \<and> (openFile env filename (optFileRead opt) (world s) = Inl e \<longrightarrow>
        convertFile env filename opt s
          = (Thrown e, s\<lparr>trace := trace s @ [OpenFile filename (optFileRead opt)]\<rparr>)
        \<and> (\<not> fs_is_directory env filename (world s) \<longrightarrow>
             fst (convertPaths env opt (filename # rest) s) = Thrown e)
        \<and> (\<not> entry_is_directory entry \<and> entry_path entry = filename
            \<and> extension filename \<noteq> getExtention (outputFormat opt)
            \<and> isLoadable env filename (world s) \<longrightarrow>
             fst (convertEntries env opt (entry # entries) s) = Thrown e))"
proof (intro conjI impI)
  assume "openFile env filename (optFileRead opt) (world s) = Inr octdata"
  then show "fst (convertFile env filename opt s) = Returned"
    by (rule convertFile_returns)
next
  assume "openFile env filename (optFileRead opt) (world s) = Inr octdata"
    and "\<not> fs_is_directory env filename (world s)"
  then show "convertPaths env opt (filename # rest) s
             = convertPaths env opt rest (snd (convertFile env filename opt s))"
    by (rule convertPaths_file_continues)
next
  assume "openFile env filename (optFileRead opt) (world s) = Inr octdata"
    and "entry_path entry = filename"
  then have "openFile env (entry_path entry) (optFileRead opt) (world s) = Inr octdata"
    by simp
  then show "fst (convertEntry env opt entry s) = Returned"
    using convertEntries_file_continues by blast
next
  assume "openFile env filename (optFileRead opt) (world s) = Inr octdata"
    and "entry_path entry = filename"
  then have "openFile env (entry_path entry) (optFileRead opt) (world s) = Inr octdata"
    by simp
  then show "convertEntries env opt (entry # entries) s
               = convertEntries env opt entries (snd (convertEntry env opt entry s))"
    using convertEntries_file_continues by blast
next
  assume "openFile env filename (optFileRead opt) (world s) = Inr octdata"
    and "\<not> fs_exists env (destination octdata filename opt) (world s)
          \<and> \<not> fst (writeFile env (destination octdata filename opt)
                  (if anonymising opt then anonymisingOct octdata else octdata)
                  (optWrite opt) (world s))"
  then show "convertFile env filename opt s =
             (Returned,
              s\<lparr>world := snd (writeFile env (destination octdata filename opt)
                          (if anonymising opt then anonymisingOct octdata else octdata)
                          (optWrite opt) (world s)),
                 trace := trace s @
                   [OpenFile filename (optFileRead opt),
                    OutDest (destination octdata filename opt),
                    WriteFile (destination octdata filename opt)
                      (if anonymising opt then anonymisingOct octdata else octdata)
                      (optWrite opt),
                    ErrWrite (destination octdata filename opt)]\<rparr>)"
    using convertFile_write_fails by blast
next
  assume "fst (convertEntries env opt es1 s) = Returned"
  then obtain s' where "convertEntries env opt es1 s = (Returned, s')"
    by (cases "convertEntries env opt es1 s") auto
  then show "convertEntries env opt (es1 @ es2) s
          = convertEntries env opt es2 (snd (convertEntries env opt es1 s))"
    by (simp add: convertEntries_append)
next
  assume "fst (convertPaths env opt ps1 s) = Returned"
  then obtain s' where "convertPaths env opt ps1 s = (Returned, s')"
    by (cases "convertPaths env opt ps1 s") auto
  then show "convertPaths env opt (ps1 @ ps2) s
          = convertPaths env opt ps2 (snd (convertPaths env opt ps1 s))"
    by (simp add: convertPaths_append)
next
  assume "fs_is_directory env search_here (world s)
        \<and> fst (convertFilesFromDir env search_here opt s) = Returned"
  moreover from this obtain s' where "convertFilesFromDir env search_here opt s = (Returned, s')"
    by (cases "convertFilesFromDir env search_here opt s") auto
  ultimately show "convertPaths env opt (search_here # rest) s
          = convertPaths env opt rest (snd (convertFilesFromDir env search_here opt s))"
    by simp
next
  assume "fst (convertFilesFromDir env search_here opt s) = Thrown e"
  then show "\<exists>evs f. trace (snd (convertFilesFromDir env search_here opt s))
              = evs @ [OpenFile f (optFileRead opt)]
          \<and> openFile env f (optFileRead opt)
              (world (snd (convertFilesFromDir env search_here opt s))) = Inl e"
    unfolding convertFilesFromDir_def by (rule convertEntries_thrown)
next
  assume "fst (convertPaths env opt octPaths s) = Thrown e"
  then show "\<exists>evs f. trace (snd (convertPaths env opt octPaths s))
              = evs @ [OpenFile f (optFileRead opt)]
          \<and> openFile env f (optFileRead opt)
              (world (snd (convertPaths env opt octPaths s))) = Inl e"
    by (rule convertPaths_thrown)
next
  assume "openFile env filename (optFileRead opt) (world s) = Inl e"
  then show "convertFile env filename opt s
          = (Thrown e, s\<lparr>trace := trace s @ [OpenFile filename (optFileRead opt)]\<rparr>)"
    by (simp add: convertFile_def Let_def emit_def)
next
  assume "openFile env filename (optFileRead opt) (world s) = Inl e"
    and "\<not> fs_is_directory env filename (world s)"
  then show "fst (convertPaths env opt (filename # rest) s) = Thrown e"
    by (simp add: convertFile_def Let_def emit_def)
next
  assume "openFile env filename (optFileRead opt) (world s) = Inl e"
    and "\<not> entry_is_directory entry \<and> entry_path entry = filename
            \<and> extension filename \<noteq> getExtention (outputFormat opt)
            \<and> isLoadable env filename (world s)"
  then show "fst (convertEntries env opt (entry # entries) s) = Thrown e"
    by (simp add: convertEntry_def convertFile_def Let_def emit_def)
qed

text \<open>
  The read of \<^verbatim>\<open>d/a.raw\<close> fails: no error is reported, and the walk of \<^verbatim>\<open>d\<close> ends there,
  before \<^verbatim>\<open>d/b.raw\<close>. And when the codec answers a failed read of \<^verbatim>\<open>d/empty.raw\<close> with
  an empty record, the file is not skipped: the empty record is written to
  \<^verbatim>\<open>d/empty.xoct\<close>, and no error is reported.
\<close>

theorem read_failure_counterexample:
  "openFile failing_env ''d/a.raw'' (optFileRead example_opt) [] = Inl ReadError
   \<and> convertFilesFromDir failing_env ''d'' example_opt start
       = (Thrown ReadError,
          \<lparr>world = [],
           trace = [IsLoadable ''d/a.raw'', OpenFile ''d/a.raw'' (optFileRead example_opt)]\<rparr>)
   \<and> openFile quiet_env ''d/empty.raw'' (optFileRead example_opt) [] = Inr []
   \<and> convertFile quiet_env ''d/empty.raw'' example_opt start
       = (Returned,
          \<lparr>world = [''d/empty.xoct''],
           trace = [OpenFile ''d/empty.raw'' (optFileRead example_opt),
                    OutDest ''d/empty.xoct'',
                    WriteFile ''d/empty.xoct'' [] (optWrite example_opt)]\<rparr>)"
proof -
  have a: "openFile failing_env ''d/a.raw'' (optFileRead example_opt) [] = Inl ReadError"
    by (simp add: failing_env_def quiet_env_def)
  have b: "convertFilesFromDir failing_env ''d'' example_opt start
       = (Thrown ReadError,
          \<lparr>world = [],
           trace = [IsLoadable ''d/a.raw'', OpenFile ''d/a.raw'' (optFileRead example_opt)]\<rparr>)"
    by (simp add: convertFilesFromDir_def convertEntry_def convertFile_def Let_def emit_def
        failing_env_def quiet_env_def start_def example_opt_def path_defs)
  have c: "openFile quiet_env ''d/empty.raw'' (optFileRead example_opt) [] = Inr []"
    by (simp add: quiet_env_def)
  have d: "convertFile quiet_env ''d/empty.raw'' example_opt start
       = (Returned,
          \<lparr>world = [''d/empty.xoct''],
           trace = [OpenFile ''d/empty.raw'' (optFileRead example_opt),
                    OutDest ''d/empty.xoct'',
                    WriteFile ''d/empty.xoct'' [] (optWrite example_opt)]\<rparr>)"
    by (simp add: convertFile_def Let_def emit_def quiet_env_def start_def
        destination_example)
  show ?thesis
    using a b c d by simp
qed

text \<open>
  In the quiet surroundings the write of \<^verbatim>\<open>d/locked.raw\<close> fails and the loop of
  \<^verbatim>\<open>main\<close> goes on to convert \<^verbatim>\<open>d/a.raw\<close>. In the walk of \<^verbatim>\<open>d\<close>, \<^verbatim>\<open>d/a.raw\<close> is
  converted, \<^verbatim>\<open>d/b.raw\<close> holds the same patient and meets the destination of
  \<^verbatim>\<open>d/a.raw\<close>, the write of \<^verbatim>\<open>d/locked.raw\<close> fails, and \<^verbatim>\<open>d/empty.raw\<close> is converted all
  the same. In the failing surroundings the loop of \<^verbatim>\<open>main\<close> over \<^verbatim>\<open>d/a.raw\<close> and
  \<^verbatim>\<open>d/b.raw\<close> ends with the read of \<^verbatim>\<open>d/a.raw\<close>.
\<close>

theorem conflict_and_write_failure_isolated_witness:
  "openFile quiet_env ''d/locked.raw'' (optFileRead example_opt) (world start) = Inr []
   \<and> \<not> fs_is_directory quiet_env ''d/locked.raw'' (world start)
   \<and> \<not> fs_exists quiet_env (destination [] ''d/locked.raw'' example_opt) (world start)
   \<and> \<not> fst (writeFile quiet_env (destination [] ''d/locked.raw'' example_opt) []
            (optWrite example_opt) (world start))
   \<and> convertFile quiet_env ''d/locked.raw'' example_opt start
       = (Returned,
          \<lparr>world = [],
           trace = [OpenFile ''d/locked.raw'' (optFileRead example_opt),
                    OutDest ''d/locked.xoct'',
                    WriteFile ''d/locked.xoct'' [] (optWrite example_opt),
                    ErrWrite ''d/locked.xoct'']\<rparr>)
   \<and> convertPaths quiet_env example_opt [''d/locked.raw'', ''d/a.raw''] start
       = (Returned,
          \<lparr>world = [''d/P42_3_7.xoct''],
           trace = [OpenFile ''d/locked.raw'' (optFileRead example_opt),
                    OutDest ''d/locked.xoct'',
                    WriteFile ''d/locked.xoct'' [] (optWrite example_opt),
                    ErrWrite ''d/locked.xoct'',
                    OpenFile ''d/a.raw'' (optFileRead example_opt),
                    OutDest ''d/P42_3_7.xoct'',
                    WriteFile ''d/P42_3_7.xoct'' example_oct (optWrite example_opt)]\<rparr>)
   \<and> convertFilesFromDir quiet_env ''d'' example_opt start
       = (Returned,
          \<lparr>world = [''d/empty.xoct'', ''d/P42_3_7.xoct''],
           trace = [IsLoadable ''d/a.raw'', OpenFile ''d/a.raw'' (optFileRead example_opt),
                    OutDest ''d/P42_3_7.xoct'',
                    WriteFile ''d/P42_3_7.xoct'' example_oct (optWrite example_opt),
                    IsLoadable ''d/b.raw'', OpenFile ''d/b.raw'' (optFileRead example_opt),
                    ErrDestExists ''d/P42_3_7.xoct'',
                    IsLoadable ''d/locked.raw'',
                    OpenFile ''d/locked.raw'' (optFileRead example_opt),
                    OutDest ''d/locked.xoct'',
                    WriteFile ''d/locked.xoct'' [] (optWrite example_opt),
                    ErrWrite ''d/locked.xoct'',
                    IsLoadable ''d/empty.raw'',
                    OpenFile ''d/empty.raw'' (optFileRead example_opt),
                    OutDest ''d/empty.xoct'',
                    WriteFile ''d/empty.xoct'' [] (optWrite example_opt)]\<rparr>)
   \<and> openFile failing_env ''d/a.raw'' (optFileRead example_opt) (world start) = Inl ReadError
   \<and> \<not> fs_is_directory failing_env ''d/a.raw'' (world start)
   \<and> convertFile failing_env ''d/a.raw'' example_opt start
       = (Thrown ReadError,
          \<lparr>world = [], trace = [OpenFile ''d/a.raw'' (optFileRead example_opt)]\<rparr>)
   \<and> convertPaths failing_env example_opt [''d/a.raw'', ''d/b.raw''] start
       = (Thrown ReadError,
          \<lparr>world = [], trace = [OpenFile ''d/a.raw'' (optFileRead example_opt)]\<rparr>)"
proof -
  note isolated = conflict_and_write_failure_isolated
  have load: "openFile quiet_env ''d/locked.raw'' (optFileRead example_opt) (world start)
      = Inr []"
    by (simp add: quiet_env_def)
  have nodir: "\<not> fs_is_directory quiet_env ''d/locked.raw'' (world start)"
    by (simp add: quiet_env_def)
  have fresh: "\<not> fs_exists quiet_env (destination [] ''d/locked.raw'' example_opt)
      (world start)"
    by (simp add: quiet_env_def start_def destination_example)
  have nowrite: "\<not> fst (writeFile quiet_env (destination [] ''d/locked.raw'' example_opt) []
            (optWrite example_opt) (world start))"
    by (simp add: quiet_env_def destination_example)
  have locked: "convertFile quiet_env ''d/locked.raw'' example_opt start
       = (Returned,
          \<lparr>world = [],
           trace = [OpenFile ''d/locked.raw'' (optFileRead example_opt),
                    OutDest ''d/locked.xoct'',
                    WriteFile ''d/locked.xoct'' [] (optWrite example_opt),
                    ErrWrite ''d/locked.xoct'']\<rparr>)"
    using isolated[where env = quiet_env and filename = "''d/locked.raw''"
        and opt = example_opt and s = start and octdata = "[]"]
      load fresh nowrite
    by (simp add: destination_example example_opt_fields quiet_env_def start_def)
  have a: "convertFile quiet_env ''d/a.raw'' example_opt
        \<lparr>world = [],
         trace = [OpenFile ''d/locked.raw'' (optFileRead example_opt),
                  OutDest ''d/locked.xoct'',
                  WriteFile ''d/locked.xoct'' [] (optWrite example_opt),
                  ErrWrite ''d/locked.xoct'']\<rparr>
       = (Returned,
          \<lparr>world = [''d/P42_3_7.xoct''],
           trace = [OpenFile ''d/locked.raw'' (optFileRead example_opt),
                    OutDest ''d/locked.xoct'',
                    WriteFile ''d/locked.xoct'' [] (optWrite example_opt),
                    ErrWrite ''d/locked.xoct'',
                    OpenFile ''d/a.raw'' (optFileRead example_opt),
                    OutDest ''d/P42_3_7.xoct'',
                    WriteFile ''d/P42_3_7.xoct'' example_oct (optWrite example_opt)]\<rparr>)"
    by (simp add: convertFile_def Let_def emit_def quiet_env_def destination_example
        example_opt_fields)
  have "convertPaths quiet_env example_opt [''d/locked.raw'', ''d/a.raw''] start
      = convertPaths quiet_env example_opt [''d/a.raw'']
          (snd (convertFile quiet_env ''d/locked.raw'' example_opt start))"
    using isolated[where env = quiet_env and filename = "''d/locked.raw''"
        and opt = example_opt and s = start and octdata = "[]" and rest = "[''d/a.raw'']"]
      load nodir
    by blast
  then have loop: "convertPaths quiet_env example_opt [''d/locked.raw'', ''d/a.raw''] start
       = (Returned,
          \<lparr>world = [''d/P42_3_7.xoct''],
           trace = [OpenFile ''d/locked.raw'' (optFileRead example_opt),
                    OutDest ''d/locked.xoct'',
                    WriteFile ''d/locked.xoct'' [] (optWrite example_opt),
                    ErrWrite ''d/locked.xoct'',
                    OpenFile ''d/a.raw'' (optFileRead example_opt),
                    OutDest ''d/P42_3_7.xoct'',
                    WriteFile ''d/P42_3_7.xoct'' example_oct (optWrite example_opt)]\<rparr>)"
    using locked a by (simp add: quiet_env_def)
  have walk: "convertFilesFromDir quiet_env ''d'' example_opt start
       = (Returned,
          \<lparr>world = [''d/empty.xoct'', ''d/P42_3_7.xoct''],
           trace = [IsLoadable ''d/a.raw'', OpenFile ''d/a.raw'' (optFileRead example_opt),
                    OutDest ''d/P42_3_7.xoct'',
                    WriteFile ''d/P42_3_7.xoct'' example_oct (optWrite example_opt),
                    IsLoadable ''d/b.raw'', OpenFile ''d/b.raw'' (optFileRead example_opt),
                    ErrDestExists ''d/P42_3_7.xoct'',
                    IsLoadable ''d/locked.raw'',
                    OpenFile ''d/locked.raw'' (optFileRead example_opt),
                    OutDest ''d/locked.xoct'',
                    WriteFile ''d/locked.xoct'' [] (optWrite example_opt),
                    ErrWrite ''d/locked.xoct'',
                    IsLoadable ''d/empty.raw'',
                    OpenFile ''d/empty.raw'' (optFileRead example_opt),
                    OutDest ''d/empty.xoct'',
                    WriteFile ''d/empty.xoct'' [] (optWrite example_opt)]\<rparr>)"
    by (simp add: convertFilesFromDir_def convertEntry_def convertFile_def Let_def emit_def
        quiet_env_def start_def destination_example example_opt_fields extension_example)
  have fails: "openFile failing_env ''d/a.raw'' (optFileRead example_opt) (world start)
      = Inl ReadError"
    by (simp add: failing_env_def quiet_env_def)
  have nodir': "\<not> fs_is_directory failing_env ''d/a.raw'' (world start)"
    by (simp add: failing_env_def quiet_env_def)
  have thrown: "convertFile failing_env ''d/a.raw'' example_opt start
       = (Thrown ReadError,
          \<lparr>world = [], trace = [OpenFile ''d/a.raw'' (optFileRead example_opt)]\<rparr>)"
    using isolated[where env = failing_env and filename = "''d/a.raw''"
        and opt = example_opt and s = start and e = ReadError] fails
    by (simp add: start_def)
  have "fst (convertPaths failing_env example_opt [''d/a.raw'', ''d/b.raw''] start)
      = Thrown ReadError"
    using isolated[where env = failing_env and filename = "''d/a.raw''"
        and opt = example_opt and s = start and e = ReadError and rest = "[''d/b.raw'']"]
      fails nodir'
    by blast
  then have ended: "convertPaths failing_env example_opt [''d/a.raw'', ''d/b.raw''] start
       = (Thrown ReadError,
          \<lparr>world = [], trace = [OpenFile ''d/a.raw'' (optFileRead example_opt)]\<rparr>)"
    using thrown nodir' by simp
  show ?thesis
    using load nodir fresh nowrite locked loop walk fails nodir' thrown ended by simp
qed

section \<open>The claims about the walk\<close>

text \<open>
  Claim C7, as the spec has it: for every directory tree and options, the walk converts
  a non-directory entry if and only if its extension differs from the extension of the
  target format and \<^verbatim>\<open>isLoadable\<close> accepts it; so the walk over a tree whose files all
  carry the target extension converts nothing. To convert an entry is to call
  \<^verbatim>\<open>convertFile\<close> on its path, which starts with the read of the file. The body of the
  loop does so for the entry it is at, but \<^verbatim>\<open>convertFilesFromDir\<close> stops at a load that
  throws and never comes to the entries after it. What holds: \<^verbatim>\<open>convertFilesFromDir\<close>
  converts an entry if and only if it reaches the entry, with no throw on the entries
  before it, the entry is not a directory, its extension differs from the target's, and
  \<^verbatim>\<open>isLoadable\<close> accepts it in the world the walk has made until then; when the walk
  returns normally it has reached every entry. The walk over entries whose files all
  carry the target extension converts nothing, asks the codec nothing and leaves the
  state as it found it.
\<close>

theorem walk_converts_iff:
  fixes s :: "('s, 'w) state"
  shows
  "((OpenFile (entry_path entry) (optFileRead opt)
       \<in> set (new_events s (snd (convertEntry env opt entry s))))
     = (\<not> entry_is_directory entry
        \<and> extension (entry_path entry) \<noteq> getExtention (outputFormat opt)
        \<and> isLoadable env (entry_path entry) (world s)))
   \<and> (entries = directory_entries env search_here (world s) \<longrightarrow>
        ((OpenFile p (optFileRead opt)
            \<in> set (new_events s (snd (convertFilesFromDir env search_here opt s))))
          = (\<exists>j < length entries.
               fst (convertEntries env opt (take j entries) s) = Returned
               \<and> entry_path (entries ! j) = p
               \<and> \<not> entry_is_directory (entries ! j)
               \<and> extension p \<noteq> getExtention (outputFormat opt)
               \<and> isLoadable env p (world (snd (convertEntries env opt (take j entries) s)))))
        \<and> (fst (convertFilesFromDir env search_here opt s) = Returned \<longrightarrow>
            (OpenFile p (optFileRead opt)
                \<in> set (new_events s (snd (convertFilesFromDir env search_here opt s))))
              = (\<exists>j < length entries.
                   entry_path (entries ! j) = p
                   \<and> \<not> entry_is_directory (entries ! j)
                   \<and> extension p \<noteq> getExtention (outputFormat opt)
                   \<and> isLoadable env p
                        (world (snd (convertEntries env opt (take j entries) s)))))
        \<and> ((\<forall>e \<in> set entries. \<not> entry_is_directory e
               \<longrightarrow> extension (entry_path e) = getExtention (outputFormat opt))
            \<longrightarrow> convertFilesFromDir env search_here opt s = (Returned, s)))"
proof (intro conjI impI)
  show "(OpenFile (entry_path entry) (optFileRead opt)
       \<in> set (new_events s (snd (convertEntry env opt entry s))))
     = (\<not> entry_is_directory entry
        \<and> extension (entry_path entry) \<noteq> getExtention (outputFormat opt)
        \<and> isLoadable env (entry_path entry) (world s))"
    by (simp add: convertEntry_opens)
next
  assume "entries = directory_entries env search_here (world s)"
  then show "(OpenFile p (optFileRead opt)
            \<in> set (new_events s (snd (convertFilesFromDir env search_here opt s))))
          = (\<exists>j < length entries.
               fst (convertEntries env opt (take j entries) s) = Returned
               \<and> entry_path (entries ! j) = p
               \<and> \<not> entry_is_directory (entries ! j)
               \<and> extension p \<noteq> getExtention (outputFormat opt)
               \<and> isLoadable env p (world (snd (convertEntries env opt (take j entries) s))))"
    unfolding convertFilesFromDir_def by (simp only: convertEntries_opens)
next
  assume entries: "entries = directory_entries env search_here (world s)"
    and "fst (convertFilesFromDir env search_here opt s) = Returned"
  then have "fst (convertEntries env opt entries s) = Returned"
    by (simp add: convertFilesFromDir_def)
  then have reached: "fst (convertEntries env opt (take j entries) s) = Returned" for j
    by (rule convertEntries_take_returned)
  have "(OpenFile p (optFileRead opt)
            \<in> set (new_events s (snd (convertEntries env opt entries s))))
          = (\<exists>j < length entries.
               fst (convertEntries env opt (take j entries) s) = Returned
               \<and> entry_path (entries ! j) = p
               \<and> \<not> entry_is_directory (entries ! j)
               \<and> extension p \<noteq> getExtention (outputFormat opt)
               \<and> isLoadable env p (world (snd (convertEntries env opt (take j entries) s))))"
    by (rule convertEntries_opens)
  then show "(OpenFile p (optFileRead opt)
                \<in> set (new_events s (snd (convertFilesFromDir env search_here opt s))))
              = (\<exists>j < length entries.
                   entry_path (entries ! j) = p
                   \<and> \<not> entry_is_directory (entries ! j)
                   \<and> extension p \<noteq> getExtention (outputFormat opt)
                   \<and> isLoadable env p
                        (world (snd (convertEntries env opt (take j entries) s))))"
    using entries reached by (simp add: convertFilesFromDir_def)
next
  assume "entries = directory_entries env search_here (world s)"
    and "\<forall>e \<in> set entries. \<not> entry_is_directory e
               \<longrightarrow> extension (entry_path e) = getExtention (outputFormat opt)"
  then show "convertFilesFromDir env search_here opt s = (Returned, s)"
    by (simp add: convertFilesFromDir_def convertEntries_skip_all)
qed

text \<open>
  In the failing surroundings \<^verbatim>\<open>d/b.raw\<close> is an entry of \<^verbatim>\<open>d\<close>, not a directory, with an
  extension other than \<^verbatim>\<open>.xoct\<close>, and the codec can load it; but the walk of \<^verbatim>\<open>d\<close> ends
  with the read of \<^verbatim>\<open>d/a.raw\<close>, and \<^verbatim>\<open>d/b.raw\<close> is not converted.
\<close>

theorem walk_stops_counterexample:
  "directory_entries failing_env ''d'' (world start) ! 1
       = \<lparr>entry_path = ''d/b.raw'', entry_is_directory = False\<rparr>
   \<and> extension ''d/b.raw'' \<noteq> getExtention (outputFormat example_opt)
   \<and> isLoadable failing_env ''d/b.raw'' (world start)
   \<and> isLoadable failing_env ''d/b.raw''
        (world (snd (convertFilesFromDir failing_env ''d'' example_opt start)))
   \<and> OpenFile ''d/b.raw'' (optFileRead example_opt)
       \<notin> set (new_events start (snd (convertFilesFromDir failing_env ''d'' example_opt start)))"
proof -
  have run: "convertFilesFromDir failing_env ''d'' example_opt start
       = (Thrown ReadError,
          \<lparr>world = [],
           trace = [IsLoadable ''d/a.raw'', OpenFile ''d/a.raw'' (optFileRead example_opt)]\<rparr>)"
    by (simp add: convertFilesFromDir_def convertEntry_def convertFile_def Let_def emit_def
        failing_env_def quiet_env_def start_def example_opt_fields extension_example)
  show ?thesis
    unfolding run
    by (simp add: failing_env_def quiet_env_def start_def new_events_def example_opt_fields
        extension_example)
qed

text \<open>
  The scenario of the spec, with target \<^verbatim>\<open>xoct\<close>: of \<^verbatim>\<open>d/a.xoct\<close>, \<^verbatim>\<open>d/b.raw\<close>,
  \<^verbatim>\<open>d/notes.txt\<close>, which the codec cannot load, and the directory \<^verbatim>\<open>d/sub\<close>, the walk
  of \<^verbatim>\<open>d\<close> converts \<^verbatim>\<open>d/b.raw\<close> and nothing else. The walk of \<^verbatim>\<open>out\<close>, where every file
  carries the target extension, changes nothing.
\<close>

theorem walk_converts_iff_witness:
  "convertFilesFromDir mixed_env ''d'' example_opt start
       = (Returned,
          \<lparr>world = [''d/P42_3_7.xoct''],
           trace = [IsLoadable ''d/b.raw'', OpenFile ''d/b.raw'' (optFileRead example_opt),
                    OutDest ''d/P42_3_7.xoct'',
                    WriteFile ''d/P42_3_7.xoct'' example_oct (optWrite example_opt),
                    IsLoadable ''d/notes.txt'']\<rparr>)
   \<and> OpenFile ''d/b.raw'' (optFileRead example_opt)
       \<in> set (new_events start (snd (convertFilesFromDir mixed_env ''d'' example_opt start)))
   \<and> OpenFile ''d/a.xoct'' (optFileRead example_opt)
       \<notin> set (new_events start (snd (convertFilesFromDir mixed_env ''d'' example_opt start)))
   \<and> OpenFile ''d/notes.txt'' (optFileRead example_opt)
       \<notin> set (new_events start (snd (convertEntry mixed_env example_opt
            \<lparr>entry_path = ''d/notes.txt'', entry_is_directory = False\<rparr> start)))
   \<and> OpenFile ''d/sub'' (optFileRead example_opt)
       \<notin> set (new_events start (snd (convertEntry mixed_env example_opt
            \<lparr>entry_path = ''d/sub'', entry_is_directory = True\<rparr> start)))
   \<and> (\<exists>j < length (directory_entries mixed_env ''d'' (world start)).
        entry_path (directory_entries mixed_env ''d'' (world start) ! j) = ''d/b.raw''
        \<and> \<not> entry_is_directory (directory_entries mixed_env ''d'' (world start) ! j)
        \<and> extension ''d/b.raw'' \<noteq> getExtention (outputFormat example_opt)
        \<and> isLoadable mixed_env ''d/b.raw''
             (world (snd (convertEntries mixed_env example_opt
                (take j (directory_entries mixed_env ''d'' (world start))) start))))
   \<and> convertFilesFromDir mixed_env ''out'' example_opt start = (Returned, start)"
proof -
  let ?n = "\<lparr>entry_path = ''d/notes.txt'', entry_is_directory = False\<rparr>"
  let ?d = "\<lparr>entry_path = ''d/sub'', entry_is_directory = True\<rparr>"
  let ?es = "directory_entries mixed_env ''d'' (world start)"
  have run: "convertFilesFromDir mixed_env ''d'' example_opt start
       = (Returned,
          \<lparr>world = [''d/P42_3_7.xoct''],
           trace = [IsLoadable ''d/b.raw'', OpenFile ''d/b.raw'' (optFileRead example_opt),
                    OutDest ''d/P42_3_7.xoct'',
                    WriteFile ''d/P42_3_7.xoct'' example_oct (optWrite example_opt),
                    IsLoadable ''d/notes.txt'']\<rparr>)"
    by (simp add: convertFilesFromDir_def convertEntry_def convertFile_def Let_def emit_def
        mixed_env_def quiet_env_def start_def destination_example example_opt_fields
        extension_example)
  have returned: "fst (convertFilesFromDir mixed_env ''d'' example_opt start) = Returned"
    by (simp add: run)
  have b: "OpenFile ''d/b.raw'' (optFileRead example_opt)
       \<in> set (new_events start (snd (convertFilesFromDir mixed_env ''d'' example_opt start)))"
    unfolding run by (simp add: new_events_def start_def)
  have b_iff: "(OpenFile ''d/b.raw'' (optFileRead example_opt)
       \<in> set (new_events start (snd (convertFilesFromDir mixed_env ''d'' example_opt start))))
     = (\<exists>j < length ?es.
          entry_path (?es ! j) = ''d/b.raw''
          \<and> \<not> entry_is_directory (?es ! j)
          \<and> extension ''d/b.raw'' \<noteq> getExtention (outputFormat example_opt)
          \<and> isLoadable mixed_env ''d/b.raw''
               (world (snd (convertEntries mixed_env example_opt (take j ?es) start))))"
    using walk_converts_iff[where env = mixed_env and opt = example_opt and s = start
        and search_here = "''d''" and p = "''d/b.raw''" and entries = ?es] returned
    by blast
  have b_why: "\<exists>j < length ?es.
          entry_path (?es ! j) = ''d/b.raw''
          \<and> \<not> entry_is_directory (?es ! j)
          \<and> extension ''d/b.raw'' \<noteq> getExtention (outputFormat example_opt)
          \<and> isLoadable mixed_env ''d/b.raw''
               (world (snd (convertEntries mixed_env example_opt (take j ?es) start)))"
    using b b_iff by blast
  have x_iff: "(OpenFile ''d/a.xoct'' (optFileRead example_opt)
       \<in> set (new_events start (snd (convertFilesFromDir mixed_env ''d'' example_opt start))))
     = (\<exists>j < length ?es.
          entry_path (?es ! j) = ''d/a.xoct''
          \<and> \<not> entry_is_directory (?es ! j)
          \<and> extension ''d/a.xoct'' \<noteq> getExtention (outputFormat example_opt)
          \<and> isLoadable mixed_env ''d/a.xoct''
               (world (snd (convertEntries mixed_env example_opt (take j ?es) start))))"
    using walk_converts_iff[where env = mixed_env and opt = example_opt and s = start
        and search_here = "''d''" and p = "''d/a.xoct''" and entries = ?es] returned
    by blast
  have x: "OpenFile ''d/a.xoct'' (optFileRead example_opt)
       \<notin> set (new_events start (snd (convertFilesFromDir mixed_env ''d'' example_opt start)))"
    unfolding x_iff by (simp add: example_opt_fields extension_example)
  have n: "OpenFile ''d/notes.txt'' (optFileRead example_opt)
       \<notin> set (new_events start (snd (convertEntry mixed_env example_opt ?n start)))"
    using walk_converts_iff[where env = mixed_env and opt = example_opt and s = start
        and entry = ?n]
    by (simp add: example_opt_fields extension_example mixed_env_def quiet_env_def)
  have d: "OpenFile ''d/sub'' (optFileRead example_opt)
       \<notin> set (new_events start (snd (convertEntry mixed_env example_opt ?d start)))"
    using walk_converts_iff[where env = mixed_env and opt = example_opt and s = start
        and entry = ?d]
    by simp
  have all_target: "\<forall>e \<in> set (directory_entries mixed_env ''out'' (world start)).
      \<not> entry_is_directory e
        \<longrightarrow> extension (entry_path e) = getExtention (outputFormat example_opt)"
    by (simp add: mixed_env_def quiet_env_def example_opt_fields extension_example)
  have out: "convertFilesFromDir mixed_env ''out'' example_opt start = (Returned, start)"
    using walk_converts_iff[where env = mixed_env and opt = example_opt and s = start
        and search_here = "''out''"
        and entries = "directory_entries mixed_env ''out'' (world start)"] all_target
    by blast
  show ?thesis
    using run b x n d b_why out by blast
qed

text \<open>
  Claim C10. The filter of the walk compares the extension of the file with the
  extension of the target format as strings, letter case included. The extension of
  \<^verbatim>\<open>d/a.XOCT\<close> is \<^verbatim>\<open>.XOCT\<close>, which is not \<^verbatim>\<open>.xoct\<close>: with target \<^verbatim>\<open>xoct\<close> the file is not
  skipped, it is passed to \<^verbatim>\<open>isLoadable\<close>, and converted when the codec accepts it, as
  it is in the example surroundings, while \<^verbatim>\<open>d/a.xoct\<close> is skipped.
\<close>

theorem extension_filter_case_sensitive:
  "extension ''d/a.XOCT'' = ''.XOCT''
   \<and> extension ''d/a.XOCT'' \<noteq> getExtention xoct
   \<and> convertEntry env (opt\<lparr>outputFormat := xoct\<rparr>)
        \<lparr>entry_path = ''d/a.XOCT'', entry_is_directory = False\<rparr> s
       = (if isLoadable env ''d/a.XOCT'' (world s)
          then convertFile env ''d/a.XOCT'' (opt\<lparr>outputFormat := xoct\<rparr>)
                 (emit (IsLoadable ''d/a.XOCT'') s)
          else (Returned, emit (IsLoadable ''d/a.XOCT'') s))
   \<and> convertEntry quiet_env example_opt
        \<lparr>entry_path = ''d/a.XOCT'', entry_is_directory = False\<rparr> start
       = (Returned,
          \<lparr>world = [''d/P42_3_7.xoct''],
           trace = [IsLoadable ''d/a.XOCT'',
                    OpenFile ''d/a.XOCT'' (optFileRead example_opt),
                    OutDest ''d/P42_3_7.xoct'',
                    WriteFile ''d/P42_3_7.xoct'' example_oct (optWrite example_opt)]\<rparr>)
   \<and> convertEntry quiet_env example_opt
        \<lparr>entry_path = ''d/a.xoct'', entry_is_directory = False\<rparr> start
       = (Returned, start)"
proof -
  have ext: "extension ''d/a.XOCT'' = ''.XOCT''"
    by (simp add: path_defs)
  have dest: "destination example_oct ''d/a.XOCT'' example_opt = ''d/P42_3_7.xoct''"
    by (simp add: destination_def createFilename_def Let_def path_defs example_defs
        patient_defs lexical_cast_def dec_nat.simps)
  have general: "convertEntry env (opt\<lparr>outputFormat := xoct\<rparr>)
        \<lparr>entry_path = ''d/a.XOCT'', entry_is_directory = False\<rparr> s
       = (if isLoadable env ''d/a.XOCT'' (world s)
          then convertFile env ''d/a.XOCT'' (opt\<lparr>outputFormat := xoct\<rparr>)
                 (emit (IsLoadable ''d/a.XOCT'') s)
          else (Returned, emit (IsLoadable ''d/a.XOCT'') s))"
    by (simp add: convertEntry_def Let_def ext emit_def)
  have upper: "convertEntry quiet_env example_opt
        \<lparr>entry_path = ''d/a.XOCT'', entry_is_directory = False\<rparr> start
       = (Returned,
          \<lparr>world = [''d/P42_3_7.xoct''],
           trace = [IsLoadable ''d/a.XOCT'',
                    OpenFile ''d/a.XOCT'' (optFileRead example_opt),
                    OutDest ''d/P42_3_7.xoct'',
                    WriteFile ''d/P42_3_7.xoct'' example_oct (optWrite example_opt)]\<rparr>)"
    by (simp add: convertEntry_def convertFile_def Let_def emit_def quiet_env_def start_def
        dest example_opt_fields ext)
  have lower: "convertEntry quiet_env example_opt
        \<lparr>entry_path = ''d/a.xoct'', entry_is_directory = False\<rparr> start
       = (Returned, start)"
    by (simp add: convertEntry_def example_opt_fields extension_example)
  show ?thesis
    using ext general upper lower by simp
qed

end
